theory Spec2Isabelle
  imports Complex_Main
begin

section \<open>Data model of \<open>main.go\<close>\<close>

subsection \<open>float64\<close>

text \<open>
  A \<open>float64\<close> is modelled by the value it denotes: a real number (one that a double
  represents), one of the two infinities, or NaN. Comparison, the special values and the
  rounding of sums and differences follow IEEE 754 as Go implements them: every ordered
  comparison with NaN is false, and the exact result of an addition is rounded to the
  nearest double, ties to the even significand, beyond the largest double to an infinity.
  The sign of zero is not modelled.
\<close>

datatype float64 = Finite real | PosInf | NegInf | NaN

text \<open>Go's \<open>a <= b\<close> on float64.\<close>

fun f_le :: "float64 \<Rightarrow> float64 \<Rightarrow> bool" where
  "f_le NaN b = False"
| "f_le a NaN = False"
| "f_le NegInf b = True"
| "f_le a PosInf = True"
| "f_le (Finite a) (Finite b) = (a \<le> b)"
| "f_le PosInf b = False"
| "f_le a NegInf = False"

text \<open>Go's \<open>a > b\<close> on float64 (not the negation of \<open><=\<close>: both are false on NaN).\<close>

fun f_gt :: "float64 \<Rightarrow> float64 \<Rightarrow> bool" where
  "f_gt NaN b = False"
| "f_gt a NaN = False"
| "f_gt PosInf PosInf = False"
| "f_gt PosInf b = True"
| "f_gt a PosInf = False"
| "f_gt NegInf b = False"
| "f_gt a NegInf = True"
| "f_gt (Finite a) (Finite b) = (a > b)"

text \<open>Rounding to the nearest integer, ties to even.\<close>

definition round_half_even :: "real \<Rightarrow> int" where
  "round_half_even x =
     (let f = \<lfloor>x\<rfloor>; d = x - of_int f
      in if d < 1 / 2 then f else if 1 / 2 < d then f + 1 else if even f then f else f + 1)"

definition pow2 :: "int \<Rightarrow> real" where
  "pow2 k = (if 0 \<le> k then 2 ^ nat k else 1 / 2 ^ nat (- k))"

text \<open>
  The binary exponent of a positive real: \<open>e\<close> with \<open>2 ^ e \<le> x < 2 ^ (e + 1)\<close>, found
  by halving or doubling, and kept between the exponent of the smallest normal double,
  -1022, and 1024.
\<close>

fun binade_up :: "nat \<Rightarrow> real \<Rightarrow> int \<Rightarrow> int" where
  "binade_up 0 x e = e"
| "binade_up (Suc n) x e = (if x < 2 then e else binade_up n (x / 2) (e + 1))"

fun binade_down :: "nat \<Rightarrow> real \<Rightarrow> int \<Rightarrow> int" where
  "binade_down 0 x e = e"
| "binade_down (Suc n) x e = (if 1 \<le> x then e else binade_down n (x * 2) (e - 1))"

definition binade :: "real \<Rightarrow> int" where
  "binade x = (if 1 \<le> x then binade_up 1024 x 0 else binade_down 1022 x 0)"

text \<open>
  The double nearest to a real: a multiple of the spacing \<open>2 ^ (e - 52)\<close> of the doubles
  of its binade (53 significant bits; the spacing of the subnormal doubles below
  \<open>2 ^ -1022\<close>), ties to the even multiple, and an infinity from \<open>2 ^ 1024\<close> on.
\<close>

definition round64 :: "real \<Rightarrow> float64" where
  "round64 x =
     (if x = 0 then Finite 0
      else
        (let q = pow2 (binade \<bar>x\<bar> - 52);
             y = of_int (round_half_even (\<bar>x\<bar> / q)) * q
         in if 2 ^ 1024 \<le> y then (if x < 0 then NegInf else PosInf)
            else Finite (if x < 0 then - y else y)))"

text \<open>Go's \<open>a + b\<close>, \<open>- a\<close> and \<open>a - b\<close> on float64.\<close>

fun f_add :: "float64 \<Rightarrow> float64 \<Rightarrow> float64" where
  "f_add NaN b = NaN"
| "f_add a NaN = NaN"
| "f_add PosInf NegInf = NaN"
| "f_add NegInf PosInf = NaN"
| "f_add PosInf b = PosInf"
| "f_add a PosInf = PosInf"
| "f_add NegInf b = NegInf"
| "f_add a NegInf = NegInf"
| "f_add (Finite a) (Finite b) = round64 (a + b)"

fun f_neg :: "float64 \<Rightarrow> float64" where
  "f_neg NaN = NaN"
| "f_neg PosInf = NegInf"
| "f_neg NegInf = PosInf"
| "f_neg (Finite a) = Finite (- a)"

definition f_sub :: "float64 \<Rightarrow> float64 \<Rightarrow> float64" where
  "f_sub a b = f_add a (f_neg b)"

subsection \<open>Decimal rendering\<close>

definition digit_char :: "nat \<Rightarrow> char" where
  "digit_char d = ''0123456789'' ! (d mod 10)"

fun digits :: "nat \<Rightarrow> string" where
  "digits n = (if n < 10 then [digit_char n] else digits (n div 10) @ [digit_char (n mod 10)])"

declare digits.simps [simp del]

text \<open>
  \<open>appendInt\<close> of Go's \<open>time\<close> package: the decimal form of \<open>x\<close>, zero-padded to at
  least \<open>width\<close> digits, after a minus sign when \<open>x\<close> is negative.
\<close>

definition appendInt :: "int \<Rightarrow> nat \<Rightarrow> string" where
  "appendInt x width =
     (let ds = digits (nat \<bar>x\<bar>)
      in (if x < 0 then ''-'' else []) @ replicate (width - length ds) (CHR ''0'') @ ds)"

text \<open>
  \<open>fmt.Sprintf("%.2f", v)\<close>: the decimal expansion of the value the double holds, cut
  after two fractional digits and rounded to the nearest, ties to even.
\<close>

definition fmt_2f :: "float64 \<Rightarrow> string" where
  "fmt_2f v =
     (case v of
        NaN \<Rightarrow> ''NaN''
      | PosInf \<Rightarrow> ''+Inf''
      | NegInf \<Rightarrow> ''-Inf''
      | Finite r \<Rightarrow>
          (let n = nat (round_half_even (\<bar>r\<bar> * 100))
           in (if r < 0 then ''-'' else []) @ digits (n div 100) @ ''.''
              @ [digit_char (n mod 100 div 10), digit_char (n mod 10)]))"

subsection \<open>Clock readings and their layouts\<close>

text \<open>
  A \<open>time.Time\<close>: an instant (seconds since the Unix epoch and the nanoseconds within
  the second) and the offset, in seconds east of UTC, of the zone it is shown in.
\<close>

record Time =
  unix_sec :: int
  nsec :: nat
  zone_offset :: int

definition FixedZone :: "string \<Rightarrow> int \<Rightarrow> int" where
  "FixedZone name offset = offset"

definition In :: "int \<Rightarrow> Time \<Rightarrow> Time" where
  "In loc t = t\<lparr>zone_offset := loc\<rparr>"

definition UTC :: "Time \<Rightarrow> Time" where
  "UTC t = In 0 t"

text \<open>
  The calendar behind \<open>Time.Date\<close>: the proleptic Gregorian date of a day number
  counted from 1970-01-01, as \<open>(year, month, day)\<close>. Days are counted from 1 March of
  year 0 in eras of 400 years (146097 days); \<open>doe\<close> is the day of the era, \<open>yoe\<close> the
  year of the era, \<open>doy\<close> the day of the year beginning on 1 March and \<open>mp\<close> its month
  (0 for March).
\<close>

definition civil_from_days :: "int \<Rightarrow> int \<times> int \<times> int" where
  "civil_from_days z0 =
     (let z = z0 + 719468;
          era = z div 146097;
          doe = z mod 146097;
          yoe = (doe - doe div 1460 + doe div 36524 - doe div 146096) div 365;
          doy = doe - (365 * yoe + yoe div 4 - yoe div 100);
          mp = (5 * doy + 2) div 153;
          d = doy - (153 * mp + 2) div 5 + 1;
          m = (if mp < 10 then mp + 3 else mp - 9);
          y = yoe + era * 400 + (if m \<le> 2 then 1 else 0)
      in (y, m, d))"

text \<open>The wall-clock second of a reading in its own zone.\<close>

definition wall :: "Time \<Rightarrow> int" where
  "wall t = unix_sec t + zone_offset t"

definition Year :: "Time \<Rightarrow> int" where
  "Year t = fst (civil_from_days (wall t div 86400))"

definition Month :: "Time \<Rightarrow> int" where
  "Month t = fst (snd (civil_from_days (wall t div 86400)))"

definition Day :: "Time \<Rightarrow> int" where
  "Day t = snd (snd (civil_from_days (wall t div 86400)))"

definition Hour :: "Time \<Rightarrow> int" where
  "Hour t = wall t mod 86400 div 3600"

definition Minute :: "Time \<Rightarrow> int" where
  "Minute t = wall t mod 3600 div 60"

definition Second :: "Time \<Rightarrow> int" where
  "Second t = wall t mod 60"

definition longMonthNames :: "string list" where
  "longMonthNames =
     [''January'', ''February'', ''March'', ''April'', ''May'', ''June'', ''July'',
      ''August'', ''September'', ''October'', ''November'', ''December'']"

text \<open>\<open>t.Format("2006-01-02 15:04:05")\<close>.\<close>

definition Format_datetime :: "Time \<Rightarrow> string" where
  "Format_datetime t =
     appendInt (Year t) 4 @ ''-'' @ appendInt (Month t) 2 @ ''-'' @ appendInt (Day t) 2 @ '' ''
     @ appendInt (Hour t) 2 @ '':'' @ appendInt (Minute t) 2 @ '':'' @ appendInt (Second t) 2"

text \<open>\<open>t.Format("01")\<close>.\<close>

definition Format_01 :: "Time \<Rightarrow> string" where
  "Format_01 t = appendInt (Month t) 2"

text \<open>\<open>t.Format("January 2006")\<close>.\<close>

definition Format_January_2006 :: "Time \<Rightarrow> string" where
  "Format_January_2006 t = longMonthNames ! nat (Month t - 1) @ '' '' @ appendInt (Year t) 4"

section \<open>The bot\<close>

subsection \<open>State\<close>

text \<open>
  \<open>TransactionState\<close>, the value behind each pointer of the map \<open>userStates\<close>.
  User and chat identifiers are \<open>int64\<close> in the source; they are only compared, never
  computed with, and are integers here.
\<close>

record TransactionState =
  UserID :: int
  Step :: string
  TransactionType :: string
  Category :: string
  Amount :: float64
  Description :: string

text \<open>
  A row of the table \<open>transactions\<close>, with the five columns the \<open>INSERT\<close> statement
  binds (the key \<open>id\<close> is assigned by the database and read by nothing in the program).
\<close>

record Transaction =
  tx_type :: string
  tx_category :: string
  tx_amount :: float64
  tx_description :: string
  tx_created_at :: string

text \<open>An inline keyboard: rows of buttons, each a label and the callback data it carries.\<close>

type_synonym keyboard = "(string \<times> string) list list"

text \<open>
  What the program hands to \<open>bot.Send\<close>, by the wrapper that built it. An error of
  \<open>bot.Send\<close> is only logged, so the request is recorded whether or not it arrives.
\<close>

datatype outbound =
    SendMessage int string
  | SendMessageWithKeyboard int string keyboard
  | EditMessage int int string
  | EditMessageWithKeyboard int int string keyboard

text \<open>
  The mutable world of the process: the map \<open>userStates\<close> (a pointer into it is the
  key of the entry it points to: every entry is allocated by \<open>startTransaction\<close> and
  referenced from the map only), the table \<open>transactions\<close> in insertion order, and the
  requests handed to the transport so far.
\<close>

record world =
  userStates :: "int \<rightharpoonup> TransactionState"
  db :: "Transaction list"
  outbox :: "outbound list"

subsection \<open>Inputs\<close>

text \<open>
  The fields of \<open>tgbotapi.Message\<close> the program reads: \<open>From.ID\<close>, \<open>Chat.ID\<close>,
  \<open>Text\<close>, and the result of the library method \<open>Command()\<close> (empty when the message
  is not a command).
\<close>

record Message =
  From_ID :: int
  Chat_ID :: int
  Text :: string
  Command :: string

text \<open>
  The fields of \<open>tgbotapi.CallbackQuery\<close> the program reads: \<open>From.ID\<close>,
  \<open>Message.Chat.ID\<close>, \<open>Message.MessageID\<close> and \<open>Data\<close>.
\<close>

record CallbackQuery =
  CB_From_ID :: int
  CB_Chat_ID :: int
  CB_MessageID :: int
  CB_Data :: string

datatype update = MessageUpdate Message | CallbackUpdate CallbackQuery | OtherUpdate

text \<open>
  The configuration read at start-up, and the functions the program takes from outside:
  \<open>strconv.ParseFloat(\<cdot>, 64)\<close> of the standard library (\<open>None\<close> standing for a non-nil
  error), and the two functions of the SQLite engine in the query of the summary,
  \<open>strftime('%m', \<cdot>)\<close> on the text of a \<open>created_at\<close> (\<open>None\<close> standing for NULL) and
  \<open>SUM\<close> over the REAL values of a group, in the order of the rows.
\<close>

record env =
  ALLOWED_USER_ID :: int
  categories :: "string list"
  ParseFloat :: "string \<Rightarrow> float64 option"
  sqlite_strftime_m :: "string \<Rightarrow> string option"
  sqlite_SUM :: "float64 list \<Rightarrow> float64"

text \<open>
  What the outside answers while one update is handled: the clock at the first and at the
  second call of \<open>time.Now()\<close>, whether \<open>db.Prepare\<close>, \<open>stmt.Exec\<close> and \<open>db.Query\<close>
  return an error, after how many rows \<open>rows.Next()\<close> stops the iteration with an error
  (\<open>None\<close> when it delivers every row of the result set), and the combined output of the
  report script (\<open>None\<close> when running it fails).
\<close>

record ext =
  now :: Time
  now_again :: Time
  prepare_err :: bool
  exec_err :: bool
  query_err :: bool
  rows_err :: "nat option"
  script_output :: "string option"

subsection \<open>Transport wrappers\<close>

definition sendMessage :: "int \<Rightarrow> string \<Rightarrow> world \<Rightarrow> world" where
  "sendMessage chatID text w = w\<lparr>outbox := outbox w @ [SendMessage chatID text]\<rparr>"

definition sendMessageWithKeyboard :: "int \<Rightarrow> string \<Rightarrow> keyboard \<Rightarrow> world \<Rightarrow> world" where
  "sendMessageWithKeyboard chatID text kb w =
     w\<lparr>outbox := outbox w @ [SendMessageWithKeyboard chatID text kb]\<rparr>"

definition editMessage :: "int \<Rightarrow> int \<Rightarrow> string \<Rightarrow> world \<Rightarrow> world" where
  "editMessage chatID messageID text w =
     w\<lparr>outbox := outbox w @ [EditMessage chatID messageID text]\<rparr>"

definition editMessageWithKeyboard ::
  "int \<Rightarrow> int \<Rightarrow> string \<Rightarrow> keyboard \<Rightarrow> world \<Rightarrow> world" where
  "editMessageWithKeyboard chatID messageID text kb w =
     w\<lparr>outbox := outbox w @ [EditMessageWithKeyboard chatID messageID text kb]\<rparr>"

subsection \<open>The dialog\<close>

definition startTransaction :: "int \<Rightarrow> int \<Rightarrow> world \<Rightarrow> world" where
  "startTransaction chatID userID w =
     (let state = \<lparr>UserID = userID, Step = ''SELECT_TYPE'', TransactionType = [],
                    Category = [], Amount = Finite 0, Description = []\<rparr>;
          w1 = w\<lparr>userStates := (userStates w)(userID \<mapsto> state)\<rparr>;
          buttons = [[(''Income'', ''income''), (''Expense'', ''expense'')]]
      in sendMessageWithKeyboard chatID ''Please choose the type of transaction:'' buttons w1)"

text \<open>
  In the four step functions \<open>p\<close> is the pointer \<open>state\<close> (the key of the entry) and
  \<open>state\<close> the value it points to when the function is entered.
\<close>

definition processTransactionType ::
  "env \<Rightarrow> CallbackQuery \<Rightarrow> int \<Rightarrow> TransactionState \<Rightarrow> world \<Rightarrow> world" where
  "processTransactionType e callback p state w =
     (let state1 = state\<lparr>TransactionType := CB_Data callback\<rparr>;
          state2 = state1\<lparr>Step := ''SELECT_CATEGORY''\<rparr>;
          w1 = w\<lparr>userStates := (userStates w)(p \<mapsto> state2)\<rparr>;
          buttons = map (\<lambda>category. [(category, category)]) (categories e)
      in editMessageWithKeyboard (CB_Chat_ID callback) (CB_MessageID callback)
           (''You selected '' @ TransactionType state2 @ ''. Choose a category:'') buttons w1)"

definition processCategory ::
  "CallbackQuery \<Rightarrow> int \<Rightarrow> TransactionState \<Rightarrow> world \<Rightarrow> world" where
  "processCategory callback p state w =
     (let state1 = state\<lparr>Category := CB_Data callback\<rparr>;
          state2 = state1\<lparr>Step := ''ENTER_AMOUNT''\<rparr>;
          w1 = w\<lparr>userStates := (userStates w)(p \<mapsto> state2)\<rparr>
      in editMessage (CB_Chat_ID callback) (CB_MessageID callback)
           (''Selected category: '' @ Category state2 @ ''. Enter the transaction amount.'') w1)"

definition processAmount ::
  "env \<Rightarrow> Message \<Rightarrow> int \<Rightarrow> TransactionState \<Rightarrow> world \<Rightarrow> world" where
  "processAmount e message p state w =
     (case ParseFloat e (Text message) of
        None \<Rightarrow>
          sendMessage (Chat_ID message) ''Invalid amount. Please enter a positive number.'' w
      | Some amount \<Rightarrow>
          if f_le amount (Finite 0)
          then sendMessage (Chat_ID message)
                 ''Invalid amount. Please enter a positive number.'' w
          else
            (let state1 = state\<lparr>Amount := amount\<rparr>;
                 state2 = state1\<lparr>Step := ''ENTER_DESCRIPTION''\<rparr>;
                 w1 = w\<lparr>userStates := (userStates w)(p \<mapsto> state2)\<rparr>
             in sendMessage (Chat_ID message)
                  ''Enter a description for the transaction (max 100 characters).'' w1))"

text \<open>
  \<open>len(message.Text)\<close> is the number of bytes of the text, which is \<open>length\<close> of a
  \<open>string\<close>.
\<close>

definition processDescription ::
  "ext \<Rightarrow> Message \<Rightarrow> int \<Rightarrow> TransactionState \<Rightarrow> world \<Rightarrow> world" where
  "processDescription x message p state w =
     (if length (Text message) > 100
      then sendMessage (Chat_ID message)
             ''Description too long. Please keep it under 100 characters.'' w
      else
        (let state1 = state\<lparr>Description := Text message\<rparr>;
             w1 = w\<lparr>userStates := (userStates w)(p \<mapsto> state1)\<rparr>;
             currentTime = In (FixedZone ''GMT+7'' (7 * 60 * 60)) (now x)
         in if prepare_err x
            then sendMessage (Chat_ID message) ''Failed to prepare transaction.'' w1
            else if exec_err x
            then sendMessage (Chat_ID message) ''Failed to save transaction.'' w1
            else
              (let row = \<lparr>tx_type = TransactionType state1, tx_category = Category state1,
                          tx_amount = Amount state1, tx_description = Description state1,
                          tx_created_at = Format_datetime currentTime\<rparr>;
                   w2 = w1\<lparr>db := db w1 @ [row]\<rparr>;
                   w3 = w2\<lparr>userStates := (userStates w2)(UserID state1 := None)\<rparr>
               in sendMessage (Chat_ID message) ''Transaction added successfully!'' w3)))"

subsection \<open>The monthly summary\<close>

definition is_digit :: "char \<Rightarrow> bool" where
  "is_digit c = (c \<in> set ''0123456789'')"

text \<open>The layout \<open>YYYY-MM-DD HH:MM:SS\<close> of a text.\<close>

definition datetime_layout :: "string \<Rightarrow> bool" where
  "datetime_layout s =
     (length s = 19
      \<and> list_all is_digit (take 4 s) \<and> s ! 4 = CHR ''-''
      \<and> list_all is_digit (take 2 (drop 5 s)) \<and> s ! 7 = CHR ''-''
      \<and> list_all is_digit (take 2 (drop 8 s)) \<and> s ! 10 = CHR '' ''
      \<and> list_all is_digit (take 2 (drop 11 s)) \<and> s ! 13 = CHR '':''
      \<and> list_all is_digit (take 2 (drop 14 s)) \<and> s ! 16 = CHR '':''
      \<and> list_all is_digit (take 2 (drop 17 s)))"

text \<open>
  The result set of
  \<open>SELECT type, SUM(amount) FROM transactions WHERE strftime('%m', created_at) = ? GROUP BY type\<close>:
  one pair for each distinct \<open>type\<close> among the selected rows (SQL leaves the order of the
  groups open; here it is the order of first occurrence).
\<close>

definition query_totals ::
  "env \<Rightarrow> Transaction list \<Rightarrow> string \<Rightarrow> (string \<times> float64) list" where
  "query_totals e table currentMonth =
     (let selected =
            filter (\<lambda>r. sqlite_strftime_m e (tx_created_at r) = Some currentMonth) table
      in map (\<lambda>t. (t, sqlite_SUM e (map tx_amount (filter (\<lambda>r. tx_type r = t) selected))))
           (remdups (map tx_type selected)))"

text \<open>
  The loop over \<open>rows.Next()\<close>, on the pair \<open>(incomeTotal, expenseTotal)\<close> and the rows
  the iteration delivers. A row is \<open>None\<close> when \<open>rows.Scan\<close> returns an error (the loop
  logs it and continues).
\<close>

fun scan_rows ::
  "(string \<times> float64) option list \<Rightarrow> float64 \<times> float64 \<Rightarrow> float64 \<times> float64" where
  "scan_rows [] totals = totals"
| "scan_rows (None # rows) totals = scan_rows rows totals"
| "scan_rows (Some (transactionType, total') # rows) (incomeTotal, expenseTotal) =
     scan_rows rows
       (if transactionType = ''income'' then (total', expenseTotal)
        else if transactionType = ''expense'' then (incomeTotal, total')
        else (incomeTotal, expenseTotal))"

definition newline :: char where
  "newline = CHR 0x0A"

text \<open>
  The rows the iteration delivers before \<open>rows.Next()\<close> returns false: the whole result
  set, or its first rows when the iteration stops with an error (which \<open>rows.Err()\<close>
  returns after the loop and the program only logs).
\<close>

definition delivered :: "nat option \<Rightarrow> 'a list \<Rightarrow> 'a list" where
  "delivered stop rows = (case stop of None \<Rightarrow> rows | Some n \<Rightarrow> take n rows)"

text \<open>
  The two columns of the result set are a \<open>TEXT NOT NULL\<close> column and a sum of a
  \<open>REAL NOT NULL\<close> column over a group that is not empty, so \<open>rows.Scan\<close> into a string
  and a float64 returns no error on them.
\<close>

definition showSummary :: "env \<Rightarrow> ext \<Rightarrow> int \<Rightarrow> world \<Rightarrow> world" where
  "showSummary e x chatID w =
     (let currentMonth = Format_01 (UTC (now x))
      in if query_err x then sendMessage chatID ''Error retrieving transactions.'' w
         else
           (let rows = delivered (rows_err x) (map Some (query_totals e (db w) currentMonth));
                totals = scan_rows rows (Finite 0, Finite 0);
                incomeTotal = fst totals;
                expenseTotal = snd totals;
                balance = f_sub incomeTotal expenseTotal;
                summaryMessage =
                  ''Monthly Summary Report for '' @ Format_January_2006 (now_again x)
                  @ '':'' @ [newline, newline]
                  @ ''Total Income: '' @ fmt_2f incomeTotal @ [newline]
                  @ ''Total Expense: '' @ fmt_2f expenseTotal @ [newline, newline]
                  @ ''Balance: '' @ fmt_2f balance
            in sendMessage chatID summaryMessage w))"

subsection \<open>Report scripts\<close>

definition get_latest_report :: "ext \<Rightarrow> int \<Rightarrow> world \<Rightarrow> world" where
  "get_latest_report x chatID w =
     (case script_output x of
        None \<Rightarrow> sendMessage chatID ''Failed to execute the report.'' w
      | Some output \<Rightarrow> sendMessage chatID output w)"

definition get_weekly_expense_report :: "ext \<Rightarrow> int \<Rightarrow> world \<Rightarrow> world" where
  "get_weekly_expense_report x chatID w =
     (case script_output x of
        None \<Rightarrow> sendMessage chatID ''Failed to execute the report.'' w
      | Some output \<Rightarrow> sendMessage chatID output w)"

subsection \<open>Routing\<close>

definition handleMessage :: "env \<Rightarrow> ext \<Rightarrow> Message \<Rightarrow> world \<Rightarrow> world" where
  "handleMessage e x message w =
     (let userID = From_ID message
      in if userID \<noteq> ALLOWED_USER_ID e
         then sendMessage (Chat_ID message) ''You are not authorized to use this bot.'' w
         else if Command message = ''add'' then startTransaction (Chat_ID message) userID w
         else if Command message = ''summary'' then showSummary e x (Chat_ID message) w
         else if Command message = ''get_latest_report''
         then get_latest_report x (Chat_ID message) w
         else if Command message = ''get_weekly_expense''
         then get_weekly_expense_report x (Chat_ID message) w
         else
           (case userStates w userID of
              Some state \<Rightarrow>
                if Step state = ''ENTER_AMOUNT'' then processAmount e message userID state w
                else if Step state = ''ENTER_DESCRIPTION''
                then processDescription x message userID state w
                else w
            | None \<Rightarrow> sendMessage (Chat_ID message) ''I don't understand that command.'' w))"

definition handleCallbackQuery :: "env \<Rightarrow> CallbackQuery \<Rightarrow> world \<Rightarrow> world" where
  "handleCallbackQuery e callback w =
     (let userID = CB_From_ID callback
      in if userID \<noteq> ALLOWED_USER_ID e
         then sendMessage (CB_Chat_ID callback) ''You are not authorized to use this bot.'' w
         else
           (case userStates w userID of
              None \<Rightarrow> w
            | Some state \<Rightarrow>
                if Step state = ''SELECT_TYPE''
                then processTransactionType e callback userID state w
                else if Step state = ''SELECT_CATEGORY''
                then processCategory callback userID state w
                else w))"

text \<open>The body of the loop over the update channel in \<open>main\<close>.\<close>

fun handleUpdate :: "env \<Rightarrow> ext \<Rightarrow> update \<Rightarrow> world \<Rightarrow> world" where
  "handleUpdate e x (MessageUpdate message) w = handleMessage e x message w"
| "handleUpdate e x (CallbackUpdate callback) w = handleCallbackQuery e callback w"
| "handleUpdate e x OtherUpdate w = w"

text \<open>The loop itself, on the updates delivered so far with what the outside answered.\<close>

fun run :: "env \<Rightarrow> (ext \<times> update) list \<Rightarrow> world \<Rightarrow> world" where
  "run e [] w = w"
| "run e ((x, u) # us) w = run e us (handleUpdate e x u w)"

section \<open>Notions the properties are stated with\<close>

definition sender :: "update \<Rightarrow> int option" where
  "sender u =
     (case u of
        MessageUpdate message \<Rightarrow> Some (From_ID message)
      | CallbackUpdate callback \<Rightarrow> Some (CB_From_ID callback)
      | OtherUpdate \<Rightarrow> None)"

definition reply_chat :: "update \<Rightarrow> int" where
  "reply_chat u =
     (case u of
        MessageUpdate message \<Rightarrow> Chat_ID message
      | CallbackUpdate callback \<Rightarrow> CB_Chat_ID callback
      | OtherUpdate \<Rightarrow> 0)"

text \<open>The commands \<open>handleMessage\<close> routes away from the dialog.\<close>

definition routed_commands :: "string set" where
  "routed_commands = {''add'', ''summary'', ''get_latest_report'', ''get_weekly_expense''}"

text \<open>
  The number of characters (Unicode code points) of a text in UTF-8: the bytes that are not
  continuation bytes \<open>10xxxxxx\<close>.
\<close>

definition is_continuation :: "char \<Rightarrow> bool" where
  "is_continuation c = (128 \<le> (of_char c :: nat) \<and> (of_char c :: nat) < 192)"

definition char_count :: "string \<Rightarrow> nat" where
  "char_count s = length (filter (\<lambda>c. \<not> is_continuation c) s)"

text \<open>
  The totals as the summary is described: over the rows of the table whose month of
  \<open>created_at\<close> is the given one, the sum of \<open>amount\<close> of those of one type, and 0.0
  when there is no such row.
\<close>

definition month_total ::
  "env \<Rightarrow> Transaction list \<Rightarrow> string \<Rightarrow> string \<Rightarrow> float64" where
  "month_total e table month ty =
     (let matching =
            filter (\<lambda>r. sqlite_strftime_m e (tx_created_at r) = Some month \<and> tx_type r = ty)
              table
      in if matching = [] then Finite 0 else sqlite_SUM e (map tx_amount matching))"

text \<open>A delivered row the loop of the summary takes a total from.\<close>

definition counted_row :: "(string \<times> float64) option \<Rightarrow> bool" where
  "counted_row row =
     (case row of None \<Rightarrow> False | Some (t, v) \<Rightarrow> t = ''income'' \<or> t = ''expense'')"

text \<open>The year of a reading fits the four digits of the layout \<open>2006\<close>.\<close>

definition four_digit_year :: "Time \<Rightarrow> bool" where
  "four_digit_year t = (0 \<le> Year t \<and> Year t \<le> 9999)"

text \<open>
  Every entry of the map of dialog states is stored under the user it names (the key that
  \<open>delete(userStates, state.UserID)\<close> removes is then the key of the entry).
\<close>

definition entries_keyed :: "world \<Rightarrow> bool" where
  "entries_keyed w = (\<forall>uid st. userStates w uid = Some st \<longrightarrow> UserID st = uid)"

section \<open>Sample inputs\<close>

text \<open>
  A configuration with the default categories. Its \<open>ParseFloat\<close> is the table of what
  \<open>strconv.ParseFloat\<close> returns on the texts the samples use (it reads \<open>NaN\<close> as the
  value NaN, without an error) and an error on every other text. Its \<open>strftime\<close> is the
  table of what SQLite returns on the \<open>created_at\<close> texts of the sample rows, and NULL
  on every other text. Its \<open>SUM\<close> adds the values one after the other to 0.0.
\<close>

definition sample_env :: env where
  "sample_env =
     \<lparr>ALLOWED_USER_ID = 1001,
      categories = [''Food'', ''Salary'', ''Needs'', ''Water'', ''Laundry'',
                    ''Transportation'', ''Utilities'', ''Rent'', ''Bills''],
      ParseFloat = (\<lambda>s. if s = ''NaN'' then Some NaN
                         else if s = ''0'' then Some (Finite 0)
                         else if s = ''12.50'' then Some (Finite (25 / 2))
                         else None),
      sqlite_strftime_m =
        (\<lambda>s. if s = ''2023-10-03 09:00:00'' then Some ''10''
              else if s = ''2023-10-10 12:30:00'' then Some ''10''
              else if s = ''2023-10-12 08:00:00'' then Some ''10''
              else if s = ''2023-11-01 02:30:00'' then Some ''11''
              else None),
      sqlite_SUM = foldl f_add (Finite 0)\<rparr>"

text \<open>The clock at 2023-11-14 22:13:20 UTC, read in a zone seven hours east; no failure.\<close>

definition sample_ext :: ext where
  "sample_ext =
     \<lparr>now = \<lparr>unix_sec = 1700000000, nsec = 123456789, zone_offset = 25200\<rparr>,
      now_again = \<lparr>unix_sec = 1700000000, nsec = 223456789, zone_offset = 25200\<rparr>,
      prepare_err = False, exec_err = False, query_err = False, rows_err = None,
      script_output = None\<rparr>"

text \<open>
  The clock at 2023-10-31 20:00:00 UTC, read in a zone seven hours east, where it is
  03:00:00 on 1 November; no failure.
\<close>

definition month_end_ext :: ext where
  "month_end_ext =
     \<lparr>now = \<lparr>unix_sec = 1698782400, nsec = 123456789, zone_offset = 25200\<rparr>,
      now_again = \<lparr>unix_sec = 1698782400, nsec = 223456789, zone_offset = 25200\<rparr>,
      prepare_err = False, exec_err = False, query_err = False, rows_err = None,
      script_output = None\<rparr>"

definition start_world :: world where
  "start_world = \<lparr>userStates = Map.empty, db = [], outbox = []\<rparr>"

definition text_message :: "int \<Rightarrow> string \<Rightarrow> Message" where
  "text_message uid s = \<lparr>From_ID = uid, Chat_ID = 77, Text = s, Command = []\<rparr>"

definition add_command :: "int \<Rightarrow> Message" where
  "add_command uid = \<lparr>From_ID = uid, Chat_ID = 77, Text = ''/add'', Command = ''add''\<rparr>"

definition selection :: "int \<Rightarrow> string \<Rightarrow> CallbackQuery" where
  "selection uid s = \<lparr>CB_From_ID = uid, CB_Chat_ID = 77, CB_MessageID = 5, CB_Data = s\<rparr>"

text \<open>The letter U+00E9, two bytes in UTF-8, \<open>n\<close> times.\<close>

definition accented :: "nat \<Rightarrow> string" where
  "accented n = concat (replicate n [CHR 0xC3, CHR 0xA9])"

text \<open>A dialog state of the authorized user of \<open>sample_env\<close> in a given step.\<close>

definition sample_state :: "string \<Rightarrow> TransactionState" where
  "sample_state step =
     \<lparr>UserID = 1001, Step = step, TransactionType = ''expense'', Category = ''Food'',
      Amount = Finite (25 / 2), Description = []\<rparr>"

definition world_in_step :: "string \<Rightarrow> world" where
  "world_in_step step =
     \<lparr>userStates = [1001 \<mapsto> sample_state step], db = [], outbox = []\<rparr>"

text \<open>
  Rows of the table: an income and an expense of October 2023, an expense whose
  \<open>created_at\<close> is 1 November (as the dialog writes it, seven hours east, while UTC is
  still in October), and a row of October whose type is neither \<open>income\<close> nor
  \<open>expense\<close>.
\<close>

definition sample_table :: "Transaction list" where
  "sample_table =
     [\<lparr>tx_type = ''income'', tx_category = ''Salary'', tx_amount = Finite 100,
       tx_description = ''pay'', tx_created_at = ''2023-10-03 09:00:00''\<rparr>,
      \<lparr>tx_type = ''expense'', tx_category = ''Food'', tx_amount = Finite 40,
       tx_description = ''lunch'', tx_created_at = ''2023-10-10 12:30:00''\<rparr>]"

definition november_row :: Transaction where
  "november_row =
     \<lparr>tx_type = ''expense'', tx_category = ''Rent'', tx_amount = Finite 900,
      tx_description = ''rent'', tx_created_at = ''2023-11-01 02:30:00''\<rparr>"

definition refund_row :: Transaction where
  "refund_row =
     \<lparr>tx_type = ''refund'', tx_category = ''Food'', tx_amount = Finite 7,
      tx_description = ''returned'', tx_created_at = ''2023-10-12 08:00:00''\<rparr>"

text \<open>
  A dialog of the authorized user in which the keyboard of an earlier message is used:
  the command and the selection of \<open>income\<close>, which brings the keyboard of the
  categories; the command again; then, on that keyboard, the button \<open>Food\<close> and the
  button \<open>Salary\<close>; the amount and the description.
\<close>

definition stale_keyboard_dialog :: "(ext \<times> update) list" where
  "stale_keyboard_dialog =
     [(sample_ext, MessageUpdate (add_command 1001)),
      (sample_ext, CallbackUpdate (selection 1001 ''income'')),
      (sample_ext, MessageUpdate (add_command 1001)),
      (sample_ext, CallbackUpdate (selection 1001 ''Food'')),
      (sample_ext, CallbackUpdate (selection 1001 ''Salary'')),
      (sample_ext, MessageUpdate (text_message 1001 ''12.50'')),
      (sample_ext, MessageUpdate (text_message 1001 ''lunch''))]"

section \<open>Rounding to a double\<close>

lemma binade_up_step:
  "0 < n \<Longrightarrow> binade_up n x e = (if x < 2 then e else binade_up (n - 1) (x / 2) (e + 1))"
  by (cases n) simp_all

lemma binade_down_step:
  "0 < n \<Longrightarrow> binade_down n x e = (if 1 \<le> x then e else binade_down (n - 1) (x * 2) (e - 1))"
  by (cases n) simp_all

lemmas round64_eval =
  round64_def binade_def binade_up_step binade_down_step pow2_def round_half_even_def Let_def

text \<open>
  Doubles are kept, other reals are moved: 0.01 and 0.001 go to the doubles that
  \<open>strconv.ParseFloat\<close> returns for them, and a sum beyond the largest double is an
  infinity.
\<close>

lemma round64_samples:
  "round64 60 = Finite 60" "round64 (25 / 2) = Finite (25 / 2)"
  "round64 (1 / 100) = Finite (5764607523034235 / 2 ^ 59)"
  "round64 (1 / 1000) = Finite (1152921504606847 / 2 ^ 60)"
  "round64 (2 ^ 53 + 1) = Finite (2 ^ 53)"
  "f_add (Finite (2 ^ 1023)) (Finite (2 ^ 1023)) = PosInf"
  by (simp_all add: round64_eval)

section \<open>Rendering numbers and dates\<close>

lemma digits_small: "n < 10 \<Longrightarrow> digits n = [digit_char n]"
  by (subst digits.simps) simp

lemma digits_large: "\<not> n < 10 \<Longrightarrow> digits n = digits (n div 10) @ [digit_char (n mod 10)]"
  by (subst digits.simps) simp

lemma digit_char_0: "digit_char 0 = CHR ''0''"
  by (simp add: digit_char_def)

lemma digit_char_mod: "digit_char (k mod 10) = digit_char k"
  by (simp add: digit_char_def)

lemma is_digit_digit_char: "is_digit (digit_char n)"
proof -
  have "n mod 10 = 0 \<or> n mod 10 = 1 \<or> n mod 10 = 2 \<or> n mod 10 = 3 \<or> n mod 10 = 4
        \<or> n mod 10 = 5 \<or> n mod 10 = 6 \<or> n mod 10 = 7 \<or> n mod 10 = 8 \<or> n mod 10 = 9"
    by presburger
  then show ?thesis
    unfolding is_digit_def digit_char_def by (elim disjE) simp_all
qed

lemma pad_1: "replicate (2 - Suc 0) c = [c]"
  by (simp add: numeral_2_eq_2)

lemma pad_3: "replicate 3 c = [c, c, c]" "replicate 2 c = [c, c]"
  by (simp_all add: numeral_eq_Suc)

lemma digits_of_2: "\<not> n < 10 \<Longrightarrow> n < 100 \<Longrightarrow> digits n = [digit_char (n div 10), digit_char n]"
  by (simp add: digits_large digits_small digit_char_mod)

lemma digits_of_3:
  assumes "\<not> n < 100" and "n < 1000"
  shows "digits n = [digit_char (n div 100), digit_char (n div 10), digit_char n]"
proof -
  from assms have a: "\<not> n < 10" "\<not> n div 10 < 10" "n div 10 < 100" by simp_all
  have "n div 10 div 10 = n div 100" by (simp add: div_mult2_eq [symmetric])
  with a show ?thesis
    using digits_of_2 [of "n div 10"] by (simp add: digits_large [of n] digit_char_mod)
qed

lemma digits_of_4:
  assumes "\<not> n < 1000" and "n < 10000"
  shows "digits n =
           [digit_char (n div 1000), digit_char (n div 100), digit_char (n div 10), digit_char n]"
proof -
  from assms have a: "\<not> n < 10" "\<not> n div 10 < 100" "n div 10 < 1000" by simp_all
  have "n div 10 div 100 = n div 1000" "n div 10 div 10 = n div 100"
    by (simp_all add: div_mult2_eq [symmetric])
  with a show ?thesis
    using digits_of_3 [of "n div 10"] by (simp add: digits_large [of n] digit_char_mod)
qed

lemma digits_2:
  assumes "n < 100"
  shows "replicate (2 - length (digits n)) (CHR ''0'') @ digits n
           = [digit_char (n div 10), digit_char (n mod 10)]"
proof (cases "n < 10")
  case True
  then show ?thesis
    by (simp add: digits_small digit_char_0 pad_1)
next
  case False
  with assms show ?thesis
    by (simp add: digits_of_2 digit_char_mod)
qed

lemma digits_4:
  assumes "n < 10000"
  shows "replicate (4 - length (digits n)) (CHR ''0'') @ digits n
           = [digit_char (n div 1000), digit_char (n div 100), digit_char (n div 10), digit_char n]"
proof -
  consider "n < 10" | "\<not> n < 10" "n < 100" | "\<not> n < 100" "n < 1000" | "\<not> n < 1000"
    by linarith
  then show ?thesis
  proof cases
    case 1
    then show ?thesis by (simp add: digits_small digit_char_0 pad_3)
  next
    case 2
    then show ?thesis by (simp add: digits_of_2 digit_char_0 pad_3)
  next
    case 3
    then have "n div 100 < 10" "n div 1000 = 0" by simp_all
    with 3 show ?thesis by (simp add: digits_of_3 digit_char_0 pad_3)
  next
    case 4
    with assms show ?thesis by (simp add: digits_of_4)
  qed
qed

lemma appendInt_2:
  assumes "0 \<le> x" and "x < 100"
  shows "appendInt x 2 = [digit_char (nat x div 10), digit_char (nat x mod 10)]"
proof -
  from assms have "nat \<bar>x\<bar> = nat x" and "nat x < 100" by simp_all
  with assms show ?thesis
    by (simp add: appendInt_def Let_def digits_2)
qed

lemma appendInt_4:
  assumes "0 \<le> x" and "x < 10000"
  shows "appendInt x 4 =
           [digit_char (nat x div 1000), digit_char (nat x div 100), digit_char (nat x div 10),
            digit_char (nat x)]"
proof -
  from assms have "nat \<bar>x\<bar> = nat x" and "nat x < 10000" by simp_all
  with assms show ?thesis
    by (simp add: appendInt_def Let_def digits_4)
qed

lemma month_day_bounds:
  fixes doy :: int
  assumes "0 \<le> doy" and "doy \<le> 365"
  defines "mp \<equiv> (5 * doy + 2) div 153"
  shows "0 \<le> mp" and "mp \<le> 11"
    and "1 \<le> doy - (153 * mp + 2) div 5 + 1" and "doy - (153 * mp + 2) div 5 + 1 \<le> 31"
proof -
  have m: "153 * mp \<le> 5 * doy + 2" "5 * doy + 2 < 153 * mp + 153"
    unfolding mp_def by linarith+
  from m assms show "0 \<le> mp" "mp \<le> 11" by linarith+
  define p where "p = (153 * mp + 2) div 5"
  have p: "5 * p \<le> 153 * mp + 2" "153 * mp + 2 < 5 * p + 5"
    unfolding p_def by linarith+
  from m p show "1 \<le> doy - (153 * mp + 2) div 5 + 1" "doy - (153 * mp + 2) div 5 + 1 \<le> 31"
    unfolding p_def [symmetric] by linarith+
qed

lemma year_day_bounds:
  fixes doe :: int
  assumes "0 \<le> doe" and "doe \<le> 146096"
  defines "yoe \<equiv> (doe - doe div 1460 + doe div 36524 - doe div 146096) div 365"
  shows "0 \<le> doe - (365 * yoe + yoe div 4 - yoe div 100)"
    and "doe - (365 * yoe + yoe div 4 - yoe div 100) \<le> 365"
proof -
  have "0 \<le> doe - (365 * yoe + yoe div 4 - yoe div 100)
        \<and> doe - (365 * yoe + yoe div 4 - yoe div 100) \<le> 365"
  proof (cases "doe = 146096")
    case True
    then show ?thesis by (simp add: yoe_def)
  next
    case False
    with assms have le: "doe \<le> 146095" by simp
    define b where "b = doe div 36524"
    define r where "r = doe mod 36524"
    define q where "q = r div 1461"
    define s where "s = r mod 1461"
    have d1: "doe = 36524 * b + r" and r: "0 \<le> r" "r < 36524"
      by (simp_all add: b_def r_def)
    have d2: "r = 1461 * q + s" and s: "0 \<le> s" "s < 1461"
      by (simp_all add: q_def s_def)
    from d1 r assms(1) le have b: "0 \<le> b" "b \<le> 3" by linarith+
    from d2 s r have q: "0 \<le> q" "q \<le> 24" by linarith+
    have c0: "doe div 146096 = 0"
      using assms(1) le by simp
    define u where "u = 24 * b + q + s"
    define eps where "eps = u div 1460"
    from b q s have u: "0 \<le> u" "u < 2920" by (simp_all add: u_def)
    then have eps: "0 \<le> eps" "eps \<le> 1" unfolding eps_def by linarith+
    have eu: "1460 * eps \<le> u" "u < 1460 * eps + 1460" unfolding eps_def by linarith+
    have "doe = 1460 * (25 * b + q) + u"
      by (simp add: d1 d2 u_def)
    then have a: "doe div 1460 = 25 * b + q + eps"
      by (simp add: eps_def)
    define k where "k = (s - eps) div 365"
    have se: "0 \<le> s - eps"
      using eu eps b q s by (simp add: u_def)
    have ks: "365 * k \<le> s - eps" "s - eps < 365 * k + 365" unfolding k_def by linarith+
    have sm: "s - eps \<le> 1459"
      using eu eps b q s unfolding u_def by linarith
    from ks se sm have k: "0 \<le> k" "k \<le> 3" by linarith+
    have "doe - doe div 1460 + doe div 36524 - doe div 146096
            = 365 * (100 * b + 4 * q) + (s - eps)"
      by (simp add: a c0 b_def [symmetric]) (simp add: d1 d2)
    then have y: "yoe = 100 * b + 4 * q + k"
      by (simp add: yoe_def k_def)
    have "yoe = 4 * (25 * b + q) + k" by (simp add: y)
    then have y4: "yoe div 4 = 25 * b + q"
      using k by simp
    have "yoe = 100 * b + (4 * q + k)" by (simp add: y)
    moreover have "(4 * q + k) div 100 = 0"
      using q k by simp
    ultimately have y100: "yoe div 100 = b"
      by simp
    have "doe - (365 * yoe + yoe div 4 - yoe div 100) = s - 365 * k"
      by (simp add: y4 y100) (simp add: y d1 d2)
    with ks eps show ?thesis by linarith
  qed
  then show "0 \<le> doe - (365 * yoe + yoe div 4 - yoe div 100)"
    and "doe - (365 * yoe + yoe div 4 - yoe div 100) \<le> 365"
    by simp_all
qed

lemma civil_from_days_bounds:
  "1 \<le> fst (snd (civil_from_days z))" "fst (snd (civil_from_days z)) \<le> 12"
  "1 \<le> snd (snd (civil_from_days z))" "snd (snd (civil_from_days z)) \<le> 31"
proof -
  define doe where "doe = (z + 719468) mod 146097"
  define yoe where "yoe = (doe - doe div 1460 + doe div 36524 - doe div 146096) div 365"
  define doy where "doy = doe - (365 * yoe + yoe div 4 - yoe div 100)"
  define mp where "mp = (5 * doy + 2) div 153"
  have doe: "0 \<le> doe" "doe \<le> 146096"
    by (simp_all add: doe_def)
  have doy: "0 \<le> doy" "doy \<le> 365"
    unfolding doy_def yoe_def by (rule year_day_bounds [OF doe])+
  have md: "0 \<le> mp" "mp \<le> 11"
    "1 \<le> doy - (153 * mp + 2) div 5 + 1" "doy - (153 * mp + 2) div 5 + 1 \<le> 31"
    unfolding mp_def by (rule month_day_bounds [OF doy])+
  have m: "fst (snd (civil_from_days z)) = (if mp < 10 then mp + 3 else mp - 9)"
    and d: "snd (snd (civil_from_days z)) = doy - (153 * mp + 2) div 5 + 1"
    unfolding civil_from_days_def Let_def mp_def doy_def yoe_def doe_def
    by (simp_all only: fst_conv snd_conv)
  from md(1,2) show "1 \<le> fst (snd (civil_from_days z))" "fst (snd (civil_from_days z)) \<le> 12"
    unfolding m by (simp_all split: if_splits)
  from md(3,4) show "1 \<le> snd (snd (civil_from_days z))" "snd (snd (civil_from_days z)) \<le> 31"
    unfolding d by this+
qed

lemma date_bounds: "0 \<le> Month t" "Month t < 100" "0 \<le> Day t" "Day t < 100"
  using civil_from_days_bounds [of "wall t div 86400"]
  by (simp_all add: Month_def Day_def)

lemma clock_bounds:
  "0 \<le> Hour t" "Hour t < 100" "0 \<le> Minute t" "Minute t < 100" "0 \<le> Second t" "Second t < 100"
proof -
  have "wall t mod 86400 < 86400" by simp
  then have "wall t mod 86400 div 3600 < 24" by linarith
  then show "Hour t < 100" by (simp add: Hour_def)
  have "wall t mod 3600 < 3600" by simp
  then have "wall t mod 3600 div 60 < 60" by linarith
  then show "Minute t < 100" by (simp add: Minute_def)
  show "0 \<le> Hour t" "0 \<le> Minute t" "0 \<le> Second t" "Second t < 100"
    by (simp_all add: Hour_def Minute_def Second_def pos_imp_zdiv_nonneg_iff)
qed

lemma layout_of_chars:
  assumes "list_all is_digit [a, b, c, d, e, f, g, h, i, j, k, l, m, n]"
  shows "datetime_layout
           [a, b, c, d, CHR ''-'', e, f, CHR ''-'', g, h, CHR '' '', i, j, CHR '':'', k, l,
            CHR '':'', m, n]"
  using assms by (simp add: datetime_layout_def)

lemma Format_datetime_chars:
  assumes "four_digit_year t"
  shows "Format_datetime t =
           [digit_char (nat (Year t) div 1000), digit_char (nat (Year t) div 100),
            digit_char (nat (Year t) div 10), digit_char (nat (Year t)), CHR ''-'',
            digit_char (nat (Month t) div 10), digit_char (nat (Month t) mod 10), CHR ''-'',
            digit_char (nat (Day t) div 10), digit_char (nat (Day t) mod 10), CHR '' '',
            digit_char (nat (Hour t) div 10), digit_char (nat (Hour t) mod 10), CHR '':'',
            digit_char (nat (Minute t) div 10), digit_char (nat (Minute t) mod 10), CHR '':'',
            digit_char (nat (Second t) div 10), digit_char (nat (Second t) mod 10)]"
proof -
  from assms have y: "0 \<le> Year t" "Year t < 10000"
    by (simp_all add: four_digit_year_def)
  show ?thesis
    unfolding Format_datetime_def appendInt_4 [OF y] appendInt_2 [OF date_bounds(1,2)]
      appendInt_2 [OF date_bounds(3,4)]
      appendInt_2 [OF clock_bounds(1,2)] appendInt_2 [OF clock_bounds(3,4)]
      appendInt_2 [OF clock_bounds(5,6)]
    by simp
qed

lemma Format_datetime_layout:
  assumes "four_digit_year t"
  shows "datetime_layout (Format_datetime t)"
    and "take 2 (drop 5 (Format_datetime t)) = Format_01 t"
proof -
  show "datetime_layout (Format_datetime t)"
    unfolding Format_datetime_chars [OF assms]
    by (rule layout_of_chars) (simp add: is_digit_digit_char)
  show "take 2 (drop 5 (Format_datetime t)) = Format_01 t"
    unfolding Format_datetime_chars [OF assms] Format_01_def appendInt_2 [OF date_bounds(1,2)]
    by simp
qed

section \<open>Authorization\<close>

text \<open>
  Claim C4. Whatever the kind of the update and whatever the states of the users, an update
  whose sender is not the authorized user only adds the rejection message, sent to the chat
  of the update, to the outgoing requests: the map of dialog states and the table are the
  ones before.
\<close>

theorem unauthorized_rejected:
  assumes "sender u = Some uid" and "uid \<noteq> ALLOWED_USER_ID e"
  shows "handleUpdate e x u w =
           w\<lparr>outbox := outbox w @
                [SendMessage (reply_chat u) ''You are not authorized to use this bot.'']\<rparr>
         \<and> userStates (handleUpdate e x u w) = userStates w
         \<and> db (handleUpdate e x u w) = db w"
  using assms
  by (cases u)
     (simp_all add: sender_def reply_chat_def handleMessage_def handleCallbackQuery_def
        sendMessage_def)

theorem unauthorized_rejected_witness:
  "sender (CallbackUpdate (selection 2002 ''income'')) = Some 2002
   \<and> 2002 \<noteq> ALLOWED_USER_ID sample_env
   \<and> userStates (handleUpdate sample_env sample_ext (CallbackUpdate (selection 2002 ''income''))
        (world_in_step ''SELECT_TYPE'')) = userStates (world_in_step ''SELECT_TYPE'')"
proof -
  have s: "sender (CallbackUpdate (selection 2002 ''income'')) = Some 2002"
    by (simp add: sender_def selection_def)
  have n: "2002 \<noteq> ALLOWED_USER_ID sample_env"
    by (simp add: sample_env_def)
  from unauthorized_rejected [OF s n, of sample_ext "world_in_step ''SELECT_TYPE''"] s n
  show ?thesis by simp
qed

section \<open>Starting a dialog\<close>

text \<open>
  Claim C5. Whatever the map of dialog states holds, the command \<open>add\<close> of the authorized
  user puts a fresh state under that user: step \<open>SELECT_TYPE\<close>, empty type, category and
  description, amount zero. A state the user had before is replaced; nothing else changes
  in the map.
\<close>

theorem add_installs_fresh_state:
  assumes "From_ID m = ALLOWED_USER_ID e" and "Command m = ''add''"
  shows "userStates (handleMessage e x m w) =
           (userStates w)(ALLOWED_USER_ID e \<mapsto>
              \<lparr>UserID = ALLOWED_USER_ID e, Step = ''SELECT_TYPE'', TransactionType = [],
               Category = [], Amount = Finite 0, Description = []\<rparr>)"
  using assms
  by (simp add: handleMessage_def startTransaction_def sendMessageWithKeyboard_def Let_def)

theorem add_installs_fresh_state_witness:
  "From_ID (add_command 1001) = ALLOWED_USER_ID sample_env
   \<and> Command (add_command 1001) = ''add''
   \<and> userStates (world_in_step ''ENTER_DESCRIPTION'') 1001
       = Some (sample_state ''ENTER_DESCRIPTION'')
   \<and> userStates (handleMessage sample_env sample_ext (add_command 1001)
        (world_in_step ''ENTER_DESCRIPTION'')) 1001
       = Some \<lparr>UserID = 1001, Step = ''SELECT_TYPE'', TransactionType = [],
               Category = [], Amount = Finite 0, Description = []\<rparr>"
proof -
  have f: "From_ID (add_command 1001) = ALLOWED_USER_ID sample_env"
    by (simp add: add_command_def sample_env_def)
  have c: "Command (add_command 1001) = ''add''"
    by (simp add: add_command_def)
  have a: "ALLOWED_USER_ID sample_env = 1001"
    by (simp add: sample_env_def)
  from add_installs_fresh_state [OF f c, of sample_ext "world_in_step ''ENTER_DESCRIPTION''"] f c a
  show ?thesis by (simp add: world_in_step_def)
qed

section \<open>Updates of the wrong kind for the step\<close>

text \<open>
  Claim C8. A selection of the authorized user that arrives while the dialog waits for
  text (step \<open>ENTER_AMOUNT\<close> or \<open>ENTER_DESCRIPTION\<close>), and a message of the authorized
  user that is none of the routed commands and arrives while the dialog waits for a
  selection (step \<open>SELECT_TYPE\<close> or \<open>SELECT_CATEGORY\<close>), change nothing: the world after
  is the world before, so the step and every field of the dialog state are kept.
\<close>

theorem wrong_kind_is_noop:
  assumes "userStates w (ALLOWED_USER_ID e) = Some st"
  shows "(CB_From_ID callback = ALLOWED_USER_ID e
            \<and> (Step st = ''ENTER_AMOUNT'' \<or> Step st = ''ENTER_DESCRIPTION'')
          \<longrightarrow> handleUpdate e x (CallbackUpdate callback) w = w)
         \<and> (From_ID m = ALLOWED_USER_ID e \<and> Command m \<notin> routed_commands
              \<and> (Step st = ''SELECT_TYPE'' \<or> Step st = ''SELECT_CATEGORY'')
            \<longrightarrow> handleUpdate e x (MessageUpdate m) w = w)"
  using assms
  by (auto simp add: handleCallbackQuery_def handleMessage_def routed_commands_def)

theorem wrong_kind_is_noop_witness:
  "userStates (world_in_step ''ENTER_AMOUNT'') (ALLOWED_USER_ID sample_env)
     = Some (sample_state ''ENTER_AMOUNT'')
   \<and> handleUpdate sample_env sample_ext (CallbackUpdate (selection 1001 ''income''))
        (world_in_step ''ENTER_AMOUNT'') = world_in_step ''ENTER_AMOUNT''
   \<and> userStates (world_in_step ''SELECT_CATEGORY'') (ALLOWED_USER_ID sample_env)
     = Some (sample_state ''SELECT_CATEGORY'')
   \<and> handleUpdate sample_env sample_ext (MessageUpdate (text_message 1001 ''12.50''))
        (world_in_step ''SELECT_CATEGORY'') = world_in_step ''SELECT_CATEGORY''"
proof -
  have a: "userStates (world_in_step ''ENTER_AMOUNT'') (ALLOWED_USER_ID sample_env)
             = Some (sample_state ''ENTER_AMOUNT'')"
    by (simp add: world_in_step_def sample_env_def)
  have b: "userStates (world_in_step ''SELECT_CATEGORY'') (ALLOWED_USER_ID sample_env)
             = Some (sample_state ''SELECT_CATEGORY'')"
    by (simp add: world_in_step_def sample_env_def)
  from wrong_kind_is_noop [OF a, of "selection 1001 ''income''" sample_ext "text_message 1001 ''12.50''"]
  have 1: "handleUpdate sample_env sample_ext (CallbackUpdate (selection 1001 ''income''))
        (world_in_step ''ENTER_AMOUNT'') = world_in_step ''ENTER_AMOUNT''"
    by (simp add: selection_def sample_env_def sample_state_def)
  from wrong_kind_is_noop [OF b, of "selection 1001 ''income''" sample_ext "text_message 1001 ''12.50''"]
  have 2: "handleUpdate sample_env sample_ext (MessageUpdate (text_message 1001 ''12.50''))
        (world_in_step ''SELECT_CATEGORY'') = world_in_step ''SELECT_CATEGORY''"
    by (simp add: text_message_def sample_env_def sample_state_def routed_commands_def)
  from a b 1 2 show ?thesis by simp
qed

section \<open>The amount\<close>

lemma processAmount_cases:
  "processAmount e m p st w =
     (case ParseFloat e (Text m) of
        None \<Rightarrow> sendMessage (Chat_ID m) ''Invalid amount. Please enter a positive number.'' w
      | Some a \<Rightarrow>
          if f_le a (Finite 0)
          then sendMessage (Chat_ID m) ''Invalid amount. Please enter a positive number.'' w
          else sendMessage (Chat_ID m)
                 ''Enter a description for the transaction (max 100 characters).''
                 (w\<lparr>userStates := (userStates w)(p \<mapsto> st\<lparr>Amount := a, Step := ''ENTER_DESCRIPTION''\<rparr>)\<rparr>))"
  by (simp add: processAmount_def Let_def split: option.splits)

text \<open>
  What \<open>processAmount\<close> does on the values it is meant for: a text that does not parse,
  and one that parses as a number that is zero or negative, leave the dialog state as it
  is; one that parses as a number above zero is recorded and moves the step on.
\<close>

lemma amount_step:
  assumes "From_ID m = ALLOWED_USER_ID e" and "Command m \<notin> routed_commands"
    and "userStates w (ALLOWED_USER_ID e) = Some st" and "Step st = ''ENTER_AMOUNT''"
  shows "(ParseFloat e (Text m) = None \<or> (\<exists>r. ParseFloat e (Text m) = Some (Finite r) \<and> r \<le> 0)
            \<longrightarrow> userStates (handleMessage e x m w) = userStates w)
         \<and> (\<forall>a. ParseFloat e (Text m) = Some a \<and> f_gt a (Finite 0)
              \<longrightarrow> userStates (handleMessage e x m w) =
                    (userStates w)(ALLOWED_USER_ID e \<mapsto>
                       st\<lparr>Amount := a, Step := ''ENTER_DESCRIPTION''\<rparr>))"
proof -
  have gt: "f_gt a (Finite 0) \<Longrightarrow> \<not> f_le a (Finite 0)" for a
    by (cases a) auto
  show ?thesis
    using assms
    by (auto simp add: handleMessage_def routed_commands_def processAmount_cases
          sendMessage_def gt)
qed

text \<open>
  Claim C1, at the text \<open>NaN\<close>. The claim has every value that does not satisfy
  \<open>a > 0\<close>, NaN among them, refused with the state unchanged. The guard of
  \<open>processAmount\<close> is \<open>amount <= 0\<close>, which is false on NaN: the text \<open>NaN\<close> parses
  without an error, NaN is stored as the amount and the step moves to
  \<open>ENTER_DESCRIPTION\<close>.
\<close>

theorem amount_NaN_accepted:
  "\<not> f_gt NaN (Finite 0)
   \<and> userStates (handleMessage sample_env sample_ext (text_message 1001 ''NaN'')
        (world_in_step ''ENTER_AMOUNT'')) 1001
     = Some ((sample_state ''ENTER_AMOUNT'')\<lparr>Amount := NaN, Step := ''ENTER_DESCRIPTION''\<rparr>)"
  by (simp add: handleMessage_def processAmount_cases sendMessage_def text_message_def
        world_in_step_def sample_env_def sample_state_def)


section \<open>The description and the commit\<close>

lemma processDescription_cases:
  "processDescription x m p st w =
     (if 100 < length (Text m)
      then sendMessage (Chat_ID m)
             ''Description too long. Please keep it under 100 characters.'' w
      else if prepare_err x
      then sendMessage (Chat_ID m) ''Failed to prepare transaction.''
             (w\<lparr>userStates := (userStates w)(p \<mapsto> st\<lparr>Description := Text m\<rparr>)\<rparr>)
      else if exec_err x
      then sendMessage (Chat_ID m) ''Failed to save transaction.''
             (w\<lparr>userStates := (userStates w)(p \<mapsto> st\<lparr>Description := Text m\<rparr>)\<rparr>)
      else sendMessage (Chat_ID m) ''Transaction added successfully!''
             (w\<lparr>db := db w @
                  [\<lparr>tx_type = TransactionType st, tx_category = Category st,
                    tx_amount = Amount st, tx_description = Text m,
                    tx_created_at =
                      Format_datetime (In (FixedZone ''GMT+7'' (7 * 60 * 60)) (now x))\<rparr>],
                userStates := ((userStates w)(p \<mapsto> st\<lparr>Description := Text m\<rparr>))
                                 (UserID st := None)\<rparr>))"
  by (simp add: processDescription_def Let_def)

lemma description_routed:
  assumes "From_ID m = ALLOWED_USER_ID e" and "Command m \<notin> routed_commands"
    and "userStates w (ALLOWED_USER_ID e) = Some st" and "Step st = ''ENTER_DESCRIPTION''"
  shows "handleMessage e x m w = processDescription x m (ALLOWED_USER_ID e) st w"
  using assms by (simp add: handleMessage_def routed_commands_def)

lemma char_count_le_length: "char_count s \<le> length s"
  by (simp add: char_count_def)

lemma accented_counts: "length (accented n) = 2 * n" "char_count (accented n) = n"
  by (induction n) (simp_all add: accented_def char_count_def is_continuation_def)

text \<open>
  What \<open>processDescription\<close> does where bytes and characters do not part. For a message
  of the authorized user that is none of the routed commands and arrives in the step
  \<open>ENTER_DESCRIPTION\<close>: when its text is at most 100 bytes long and neither
  \<open>db.Prepare\<close> nor \<open>stmt.Exec\<close> fails, one row with the accumulated type, category and
  amount and with the text as description is appended to the table, and the dialog state
  of the user is deleted; when its text has more than 100 characters (101 for one), no
  row is written and the map of dialog states is unchanged.
\<close>

lemma description_commit:
  assumes "From_ID m = ALLOWED_USER_ID e" and "Command m \<notin> routed_commands"
    and "userStates w (ALLOWED_USER_ID e) = Some st" and "Step st = ''ENTER_DESCRIPTION''"
    and "UserID st = ALLOWED_USER_ID e"
  shows "(length (Text m) \<le> 100 \<and> \<not> prepare_err x \<and> \<not> exec_err x \<longrightarrow>
            db (handleMessage e x m w) =
              db w @ [\<lparr>tx_type = TransactionType st, tx_category = Category st,
                       tx_amount = Amount st, tx_description = Text m,
                       tx_created_at =
                         Format_datetime (In (FixedZone ''GMT+7'' (7 * 60 * 60)) (now x))\<rparr>]
            \<and> userStates (handleMessage e x m w) = (userStates w)(ALLOWED_USER_ID e := None))
         \<and> (100 < char_count (Text m) \<longrightarrow>
               db (handleMessage e x m w) = db w
               \<and> userStates (handleMessage e x m w) = userStates w)"
proof -
  have "100 < char_count (Text m) \<Longrightarrow> 100 < length (Text m)"
    using char_count_le_length [of "Text m"] by simp
  then show ?thesis
    using assms(5)
    by (auto simp add: description_routed [OF assms(1-4)] processDescription_cases
          sendMessage_def)
qed


lemma civil_sample: "civil_from_days 19676 = (2023, 11, 15)" "civil_from_days 19675 = (2023, 11, 14)"
  unfolding civil_from_days_def Let_def by simp_all

lemma sample_created_at:
  "Format_datetime (In (FixedZone ''GMT+7'' 25200) (now sample_ext)) = ''2023-11-15 05:13:20''"
  by (simp add: Format_datetime_def In_def FixedZone_def sample_ext_def Year_def Month_def
        Day_def Hour_def Minute_def Second_def wall_def civil_sample appendInt_def
        digits_small digits_large digit_char_def pad_3 pad_1)

lemma sample_description_routed:
  "From_ID (text_message 1001 s) = ALLOWED_USER_ID sample_env"
  "Command (text_message 1001 s) \<notin> routed_commands"
  "userStates (world_in_step step) (ALLOWED_USER_ID sample_env) = Some (sample_state step)"
  "Step (sample_state step) = step"
  "UserID (sample_state step) = ALLOWED_USER_ID sample_env"
  by (simp_all add: text_message_def sample_env_def routed_commands_def world_in_step_def
        sample_state_def)

lemma description_commit_sample:
  "length (Text (text_message 1001 ''lunch'')) \<le> 100
   \<and> \<not> prepare_err sample_ext \<and> \<not> exec_err sample_ext
   \<and> db (handleMessage sample_env sample_ext (text_message 1001 ''lunch'')
          (world_in_step ''ENTER_DESCRIPTION''))
       = [\<lparr>tx_type = ''expense'', tx_category = ''Food'', tx_amount = Finite (25 / 2),
           tx_description = ''lunch'', tx_created_at = ''2023-11-15 05:13:20''\<rparr>]
   \<and> userStates (handleMessage sample_env sample_ext (text_message 1001 ''lunch'')
          (world_in_step ''ENTER_DESCRIPTION'')) 1001 = None
   \<and> 100 < char_count (Text (text_message 1001 (accented 101)))
   \<and> db (handleMessage sample_env sample_ext (text_message 1001 (accented 101))
          (world_in_step ''ENTER_DESCRIPTION'')) = []
   \<and> userStates (handleMessage sample_env sample_ext (text_message 1001 (accented 101))
          (world_in_step ''ENTER_DESCRIPTION'')) 1001 = Some (sample_state ''ENTER_DESCRIPTION'')"
proof -
  have a: "length (Text (text_message 1001 ''lunch'')) \<le> 100
           \<and> \<not> prepare_err sample_ext \<and> \<not> exec_err sample_ext"
    by (simp add: text_message_def sample_ext_def)
  have b: "100 < char_count (Text (text_message 1001 (accented 101)))"
    by (simp add: text_message_def accented_counts)
  have t: "Text (text_message 1001 s) = s" for s
    by (simp add: text_message_def)
  have v: "db (world_in_step ''ENTER_DESCRIPTION'') = []"
    "userStates (world_in_step ''ENTER_DESCRIPTION'') 1001 = Some (sample_state ''ENTER_DESCRIPTION'')"
    "ALLOWED_USER_ID sample_env = 1001"
    "TransactionType (sample_state ''ENTER_DESCRIPTION'') = ''expense''"
    "Category (sample_state ''ENTER_DESCRIPTION'') = ''Food''"
    "Amount (sample_state ''ENTER_DESCRIPTION'') = Finite (25 / 2)"
    by (simp_all add: world_in_step_def sample_state_def sample_env_def)
  note th1 = description_commit [where e = sample_env and x = sample_ext
      and m = "text_message 1001 ''lunch''" and w = "world_in_step ''ENTER_DESCRIPTION''"
      and st = "sample_state ''ENTER_DESCRIPTION''", OF sample_description_routed]
  from th1 a
  have 1: "db (handleMessage sample_env sample_ext (text_message 1001 ''lunch'')
          (world_in_step ''ENTER_DESCRIPTION''))
       = [\<lparr>tx_type = ''expense'', tx_category = ''Food'', tx_amount = Finite (25 / 2),
           tx_description = ''lunch'', tx_created_at = ''2023-11-15 05:13:20''\<rparr>]"
    and 2: "userStates (handleMessage sample_env sample_ext (text_message 1001 ''lunch'')
          (world_in_step ''ENTER_DESCRIPTION'')) 1001 = None"
    by (simp_all add: t v sample_created_at)
  note th2 = description_commit [where e = sample_env and x = sample_ext
      and m = "text_message 1001 (accented 101)" and w = "world_in_step ''ENTER_DESCRIPTION''"
      and st = "sample_state ''ENTER_DESCRIPTION''", OF sample_description_routed]
  from th2 b
  have 3: "db (handleMessage sample_env sample_ext (text_message 1001 (accented 101))
          (world_in_step ''ENTER_DESCRIPTION'')) = []"
    and 4: "userStates (handleMessage sample_env sample_ext (text_message 1001 (accented 101))
          (world_in_step ''ENTER_DESCRIPTION'')) 1001 = Some (sample_state ''ENTER_DESCRIPTION'')"
    by (simp_all add: v)
  from a b 1 2 3 4 show ?thesis by simp
qed

text \<open>
  Claim C3, at a description of 51 letters of two bytes each. The claim has a description
  of at most 100 characters committed, and the prompts of the program speak of
  characters (\<open>max 100 characters\<close>, \<open>under 100 characters\<close>). The test of
  \<open>processDescription\<close> is \<open>len(message.Text) > 100\<close>, which counts bytes: with the store
  working, the text of 51 characters and 102 bytes is refused, nothing is written and the
  dialog state stays as it was.
\<close>

theorem description_51_letters_refused:
  "char_count (accented 51) = 51 \<and> length (accented 51) = 102
   \<and> \<not> prepare_err sample_ext \<and> \<not> exec_err sample_ext
   \<and> handleMessage sample_env sample_ext (text_message 1001 (accented 51))
        (world_in_step ''ENTER_DESCRIPTION'')
      = (world_in_step ''ENTER_DESCRIPTION'')
          \<lparr>outbox := [SendMessage 77
                        ''Description too long. Please keep it under 100 characters.'']\<rparr>"
proof -
  have r: "handleMessage sample_env x (text_message 1001 s) (world_in_step ''ENTER_DESCRIPTION'')
           = processDescription x (text_message 1001 s) (ALLOWED_USER_ID sample_env)
               (sample_state ''ENTER_DESCRIPTION'') (world_in_step ''ENTER_DESCRIPTION'')" for x s
    by (rule description_routed [OF sample_description_routed(1,2,3,4)])
  have t: "Text (text_message 1001 s) = s" "Chat_ID (text_message 1001 s) = 77" for s
    by (simp_all add: text_message_def)
  show ?thesis
    unfolding r processDescription_cases t
    by (simp add: accented_counts sendMessage_def world_in_step_def sample_ext_def)
qed

text \<open>
  Claim C6, as the code has it. When \<open>db.Prepare\<close> or \<open>stmt.Exec\<close> fails on a
  description of at most 100 bytes, the user is sent the failure message of the call that
  failed and the dialog state is kept under the user, with its step, type, category and
  amount as they were and with the submitted text as its description; the table is
  unchanged. A description sent next, with the store working, is committed with the type,
  category and amount the dialog had accumulated.
\<close>

theorem commit_failure_keeps_dialog:
  assumes "From_ID m = ALLOWED_USER_ID e" and "Command m \<notin> routed_commands"
    and "userStates w (ALLOWED_USER_ID e) = Some st" and "Step st = ''ENTER_DESCRIPTION''"
    and "length (Text m) \<le> 100" and "prepare_err x \<or> exec_err x"
  shows "handleMessage e x m w =
           w\<lparr>userStates := (userStates w)(ALLOWED_USER_ID e \<mapsto> st\<lparr>Description := Text m\<rparr>),
             outbox := outbox w @
               [SendMessage (Chat_ID m)
                  (if prepare_err x then ''Failed to prepare transaction.''
                   else ''Failed to save transaction.'')]\<rparr>
         \<and> (From_ID m' = ALLOWED_USER_ID e \<and> Command m' \<notin> routed_commands
              \<and> length (Text m') \<le> 100 \<and> \<not> prepare_err x' \<and> \<not> exec_err x' \<longrightarrow>
             db (handleMessage e x' m' (handleMessage e x m w)) =
               db w @ [\<lparr>tx_type = TransactionType st, tx_category = Category st,
                        tx_amount = Amount st, tx_description = Text m',
                        tx_created_at =
                          Format_datetime (In (FixedZone ''GMT+7'' (7 * 60 * 60)) (now x'))\<rparr>])"
proof -
  let ?w = "w\<lparr>userStates := (userStates w)(ALLOWED_USER_ID e \<mapsto> st\<lparr>Description := Text m\<rparr>),
             outbox := outbox w @
               [SendMessage (Chat_ID m)
                  (if prepare_err x then ''Failed to prepare transaction.''
                   else ''Failed to save transaction.'')]\<rparr>"
  have 1: "handleMessage e x m w = ?w"
    using assms(5,6)
    by (auto simp add: description_routed [OF assms(1-4)] processDescription_cases
          sendMessage_def)
  have 2: "db (handleMessage e x' m' ?w) =
             db w @ [\<lparr>tx_type = TransactionType st, tx_category = Category st,
                      tx_amount = Amount st, tx_description = Text m',
                      tx_created_at =
                        Format_datetime (In (FixedZone ''GMT+7'' (7 * 60 * 60)) (now x'))\<rparr>]"
    if h: "From_ID m' = ALLOWED_USER_ID e" "Command m' \<notin> routed_commands"
      "length (Text m') \<le> 100" "\<not> prepare_err x'" "\<not> exec_err x'"
  proof -
    have s: "userStates ?w (ALLOWED_USER_ID e) = Some (st\<lparr>Description := Text m\<rparr>)"
      by simp
    have p: "Step (st\<lparr>Description := Text m\<rparr>) = ''ENTER_DESCRIPTION''"
      using assms(4) by simp
    show ?thesis
      using h(3-5)
      by (simp add: description_routed [OF h(1,2) s p] processDescription_cases sendMessage_def)
  qed
  from 1 2 show ?thesis by simp
qed

theorem commit_failure_keeps_dialog_witness:
  "length (Text (text_message 1001 ''lunch'')) \<le> 100
   \<and> exec_err (sample_ext\<lparr>exec_err := True\<rparr>)
   \<and> handleMessage sample_env (sample_ext\<lparr>exec_err := True\<rparr>) (text_message 1001 ''lunch'')
        (world_in_step ''ENTER_DESCRIPTION'')
      = \<lparr>userStates = [1001 \<mapsto> (sample_state ''ENTER_DESCRIPTION'')\<lparr>Description := ''lunch''\<rparr>],
         db = [], outbox = [SendMessage 77 ''Failed to save transaction.'']\<rparr>
   \<and> db (handleMessage sample_env sample_ext (text_message 1001 ''dinner'')
          (handleMessage sample_env (sample_ext\<lparr>exec_err := True\<rparr>)
             (text_message 1001 ''lunch'') (world_in_step ''ENTER_DESCRIPTION'')))
      = [\<lparr>tx_type = ''expense'', tx_category = ''Food'', tx_amount = Finite (25 / 2),
          tx_description = ''dinner'', tx_created_at = ''2023-11-15 05:13:20''\<rparr>]"
proof -
  have a: "length (Text (text_message 1001 ''lunch'')) \<le> 100"
    by (simp add: text_message_def)
  have b: "prepare_err (sample_ext\<lparr>exec_err := True\<rparr>) \<or> exec_err (sample_ext\<lparr>exec_err := True\<rparr>)"
    by simp
  have c: "From_ID (text_message 1001 ''dinner'') = ALLOWED_USER_ID sample_env
           \<and> Command (text_message 1001 ''dinner'') \<notin> routed_commands
           \<and> length (Text (text_message 1001 ''dinner'')) \<le> 100
           \<and> \<not> prepare_err sample_ext \<and> \<not> exec_err sample_ext"
    by (simp add: text_message_def sample_env_def routed_commands_def sample_ext_def)
  have v: "ALLOWED_USER_ID sample_env = 1001" "Chat_ID (text_message 1001 s) = 77"
    "Text (text_message 1001 s) = s"
    "TransactionType (sample_state ''ENTER_DESCRIPTION'') = ''expense''"
    "Category (sample_state ''ENTER_DESCRIPTION'') = ''Food''"
    "Amount (sample_state ''ENTER_DESCRIPTION'') = Finite (25 / 2)" for s
    by (simp_all add: sample_env_def text_message_def sample_state_def)
  note th = commit_failure_keeps_dialog [where e = sample_env
      and x = "sample_ext\<lparr>exec_err := True\<rparr>" and m = "text_message 1001 ''lunch''"
      and w = "world_in_step ''ENTER_DESCRIPTION''" and st = "sample_state ''ENTER_DESCRIPTION''"
      and m' = "text_message 1001 ''dinner''" and x' = sample_ext,
      OF sample_description_routed(1,2,3,4) a b]
  from th [THEN conjunct1]
  have 1: "handleMessage sample_env (sample_ext\<lparr>exec_err := True\<rparr>)
        (text_message 1001 ''lunch'') (world_in_step ''ENTER_DESCRIPTION'')
      = \<lparr>userStates = [1001 \<mapsto> (sample_state ''ENTER_DESCRIPTION'')\<lparr>Description := ''lunch''\<rparr>],
         db = [], outbox = [SendMessage 77 ''Failed to save transaction.'']\<rparr>"
    by (simp add: v world_in_step_def sample_ext_def)
  from th [THEN conjunct2] c
  have 2: "db (handleMessage sample_env sample_ext (text_message 1001 ''dinner'')
          (handleMessage sample_env (sample_ext\<lparr>exec_err := True\<rparr>)
             (text_message 1001 ''lunch'') (world_in_step ''ENTER_DESCRIPTION'')))
      = [\<lparr>tx_type = ''expense'', tx_category = ''Food'', tx_amount = Finite (25 / 2),
          tx_description = ''dinner'', tx_created_at = ''2023-11-15 05:13:20''\<rparr>]"
    by (simp add: v sample_created_at world_in_step_def)
  from a 1 2 show ?thesis by simp
qed

text \<open>
  Claim C6 as it is stated fails in one field: the description is assigned before the
  statement is prepared, so after a failed commit the dialog state holds the submitted
  text where it held the empty text.
\<close>

theorem commit_failure_counterexample:
  "userStates (world_in_step ''ENTER_DESCRIPTION'') 1001 = Some (sample_state ''ENTER_DESCRIPTION'')
   \<and> userStates (handleMessage sample_env (sample_ext\<lparr>exec_err := True\<rparr>)
        (text_message 1001 ''lunch'') (world_in_step ''ENTER_DESCRIPTION'')) 1001
      = Some ((sample_state ''ENTER_DESCRIPTION'')\<lparr>Description := ''lunch''\<rparr>)
   \<and> Description (sample_state ''ENTER_DESCRIPTION'') = []
   \<and> (sample_state ''ENTER_DESCRIPTION'')\<lparr>Description := ''lunch''\<rparr>
       \<noteq> sample_state ''ENTER_DESCRIPTION''"
proof -
  have r: "handleMessage sample_env x (text_message 1001 s) (world_in_step ''ENTER_DESCRIPTION'')
           = processDescription x (text_message 1001 s) (ALLOWED_USER_ID sample_env)
               (sample_state ''ENTER_DESCRIPTION'') (world_in_step ''ENTER_DESCRIPTION'')" for x s
    by (rule description_routed [OF sample_description_routed(1,2,3,4)])
  show ?thesis
    unfolding r processDescription_cases
    by (simp add: text_message_def sendMessage_def world_in_step_def sample_ext_def
          sample_env_def sample_state_def)
qed

section \<open>The time of the commit\<close>

lemma Format_datetime_instant:
  "Format_datetime (In loc t) = Format_datetime \<lparr>unix_sec = unix_sec t, nsec = 0, zone_offset = loc\<rparr>"
  by (simp add: Format_datetime_def In_def Year_def Month_def Day_def Hour_def Minute_def
        Second_def wall_def)

text \<open>
  Claim C9. The row a completed dialog writes carries as \<open>created_at\<close> the rendering, in
  the layout \<open>2006-01-02 15:04:05\<close>, of the clock reading taken during the commit and
  shown seven hours east of UTC: it is a function of the whole seconds of the instant (the
  nanoseconds of the reading and the zone it came in play no part), and whenever the
  layout can show the date (a year of four digits) the text has the form
  \<open>YYYY-MM-DD HH:MM:SS\<close>, nineteen characters with nothing after the seconds.
\<close>

theorem commit_timestamp:
  assumes "From_ID m = ALLOWED_USER_ID e" and "Command m \<notin> routed_commands"
    and "userStates w (ALLOWED_USER_ID e) = Some st" and "Step st = ''ENTER_DESCRIPTION''"
    and "length (Text m) \<le> 100" and "\<not> prepare_err x" and "\<not> exec_err x"
  shows "\<exists>row. db (handleMessage e x m w) = db w @ [row]
           \<and> tx_created_at row =
               Format_datetime
                 \<lparr>unix_sec = unix_sec (now x), nsec = 0, zone_offset = 7 * 60 * 60\<rparr>
           \<and> (four_digit_year
                 \<lparr>unix_sec = unix_sec (now x), nsec = 0, zone_offset = 7 * 60 * 60\<rparr>
               \<longrightarrow> datetime_layout (tx_created_at row) \<and> length (tx_created_at row) = 19)"
proof -
  have l: "datetime_layout s \<Longrightarrow> length s = 19" for s
    by (simp add: datetime_layout_def)
  show ?thesis
    using assms(5-7)
    by (simp add: description_routed [OF assms(1-4)] processDescription_cases sendMessage_def
          Format_datetime_instant FixedZone_def Format_datetime_layout l)
qed

lemma sample_four_digit_year:
  "four_digit_year \<lparr>unix_sec = unix_sec (now sample_ext), nsec = 0, zone_offset = 25200\<rparr>"
  by (simp add: four_digit_year_def sample_ext_def Year_def wall_def civil_sample)

theorem commit_timestamp_witness:
  "length (Text (text_message 1001 ''lunch'')) \<le> 100
   \<and> \<not> prepare_err sample_ext \<and> \<not> exec_err sample_ext
   \<and> four_digit_year \<lparr>unix_sec = unix_sec (now sample_ext), nsec = 0, zone_offset = 25200\<rparr>
   \<and> (\<exists>row. db (handleMessage sample_env sample_ext (text_message 1001 ''lunch'')
                 (world_in_step ''ENTER_DESCRIPTION'')) = [row]
          \<and> tx_created_at row = ''2023-11-15 05:13:20''
          \<and> datetime_layout (tx_created_at row))"
proof -
  have a: "length (Text (text_message 1001 ''lunch'')) \<le> 100"
    by (simp add: text_message_def)
  have b: "\<not> prepare_err sample_ext" "\<not> exec_err sample_ext"
    by (simp_all add: sample_ext_def)
  have f: "Format_datetime \<lparr>unix_sec = unix_sec (now sample_ext), nsec = 0, zone_offset = 25200\<rparr>
             = ''2023-11-15 05:13:20''"
    using sample_created_at by (simp add: Format_datetime_instant FixedZone_def)
  from commit_timestamp [where e = sample_env and x = sample_ext
      and m = "text_message 1001 ''lunch''" and w = "world_in_step ''ENTER_DESCRIPTION''"
      and st = "sample_state ''ENTER_DESCRIPTION''", OF sample_description_routed(1,2,3,4) a b]
    sample_four_digit_year
  have "\<exists>row. db (handleMessage sample_env sample_ext (text_message 1001 ''lunch'')
                 (world_in_step ''ENTER_DESCRIPTION'')) = [row]
          \<and> tx_created_at row = ''2023-11-15 05:13:20''
          \<and> datetime_layout (tx_created_at row)"
    by (auto simp add: f world_in_step_def)
  with a b sample_four_digit_year show ?thesis by simp
qed

section \<open>The monthly summary\<close>

lemma Format_01_instant:
  "Format_01 (UTC t) = Format_01 \<lparr>unix_sec = unix_sec t, nsec = 0, zone_offset = 0\<rparr>"
  by (simp add: Format_01_def UTC_def In_def Month_def wall_def)

lemma scan_rows_distinct:
  "distinct ts \<Longrightarrow>
   scan_rows (map (\<lambda>t. Some (t, g t)) ts) (i, e) =
     (if ''income'' \<in> set ts then g ''income'' else i,
      if ''expense'' \<in> set ts then g ''expense'' else e)"
proof (induction ts arbitrary: i e)
  case Nil
  then show ?case by simp
next
  case (Cons t ts)
  then show ?case by auto
qed

text \<open>
  The loop of \<open>showSummary\<close> over the whole result set of the query leaves in the two
  totals the sums the summary is described with.
\<close>

lemma summary_totals:
  "scan_rows (map Some (query_totals e table month)) (Finite 0, Finite 0) =
     (month_total e table month ''income'', month_total e table month ''expense'')"
proof -
  let ?sel = "filter (\<lambda>r. sqlite_strftime_m e (tx_created_at r) = Some month) table"
  let ?g = "\<lambda>t. sqlite_SUM e (map tx_amount (filter (\<lambda>r. tx_type r = t) ?sel))"
  have m: "filter (\<lambda>r. sqlite_strftime_m e (tx_created_at r) = Some month \<and> tx_type r = t) table
             = filter (\<lambda>r. tx_type r = t) ?sel" for t
    by (simp add: conj_commute)
  have "map Some (query_totals e table month) = map (\<lambda>t. Some (t, ?g t)) (remdups (map tx_type ?sel))"
    by (simp add: query_totals_def Let_def)
  then have "scan_rows (map Some (query_totals e table month)) (Finite 0, Finite 0) =
      (if ''income'' \<in> set (remdups (map tx_type ?sel)) then ?g ''income'' else Finite 0,
       if ''expense'' \<in> set (remdups (map tx_type ?sel)) then ?g ''expense'' else Finite 0)"
    by (simp only: scan_rows_distinct [OF distinct_remdups])
  also have "\<dots> = (month_total e table month ''income'', month_total e table month ''expense'')"
  proof -
    have "(if ty \<in> set (remdups (map tx_type ?sel)) then ?g ty else Finite 0)
            = month_total e table month ty" for ty
    proof (cases "ty \<in> set (remdups (map tx_type ?sel))")
      case True
      then have "filter (\<lambda>r. tx_type r = ty) ?sel \<noteq> []"
        by (auto simp add: filter_empty_conv)
      with True show ?thesis
        unfolding month_total_def Let_def m by simp
    next
      case False
      then have "filter (\<lambda>r. tx_type r = ty) ?sel = []"
        by (auto simp add: filter_empty_conv)
      with False show ?thesis
        unfolding month_total_def Let_def m by simp
    qed
    then show ?thesis by (simp only:)
  qed
  finally show ?thesis .
qed

text \<open>
  Claim C7. When the query succeeds and the iteration delivers every row of its result,
  the summary is one message. Its text names the month and year of the second reading of
  the clock, in the zone the reading came in. Its income total is the sum of the amounts
  of the rows of type \<open>income\<close> whose month of \<open>created_at\<close> is the month of the UTC
  calendar at the instant of the first reading (whatever the zone of that reading), or
  0.0 when there is no such row; its expense total is the same for the type \<open>expense\<close>;
  its balance is the first minus the second, as doubles; each figure is rendered by
  \<open>%.2f\<close>, which renders 0.0 as \<open>0.00\<close>.
\<close>

theorem monthly_summary:
  assumes "\<not> query_err x" and "rows_err x = None"
  shows "showSummary e x chatID w =
           sendMessage chatID
             (''Monthly Summary Report for '' @ Format_January_2006 (now_again x) @ '':''
              @ [newline, newline]
              @ ''Total Income: ''
              @ fmt_2f (month_total e (db w)
                          (Format_01 \<lparr>unix_sec = unix_sec (now x), nsec = 0, zone_offset = 0\<rparr>)
                          ''income'')
              @ [newline]
              @ ''Total Expense: ''
              @ fmt_2f (month_total e (db w)
                          (Format_01 \<lparr>unix_sec = unix_sec (now x), nsec = 0, zone_offset = 0\<rparr>)
                          ''expense'')
              @ [newline, newline]
              @ ''Balance: ''
              @ fmt_2f (f_sub
                          (month_total e (db w)
                             (Format_01 \<lparr>unix_sec = unix_sec (now x), nsec = 0, zone_offset = 0\<rparr>)
                             ''income'')
                          (month_total e (db w)
                             (Format_01 \<lparr>unix_sec = unix_sec (now x), nsec = 0, zone_offset = 0\<rparr>)
                             ''expense''))) w
         \<and> month_total e [] month ''income'' = Finite 0
         \<and> month_total e [] month ''expense'' = Finite 0
         \<and> fmt_2f (Finite 0) = ''0.00''"
  using assms
  by (simp add: showSummary_def Let_def delivered_def summary_totals Format_01_instant)
     (simp add: month_total_def fmt_2f_def round_half_even_def digits_small digit_char_def)

lemma civil_month_end:
  "civil_from_days 19661 = (2023, 10, 31)" "civil_from_days 19662 = (2023, 11, 1)"
  unfolding civil_from_days_def Let_def by simp_all

lemma month_end_month:
  "Format_01 \<lparr>unix_sec = unix_sec (now month_end_ext), nsec = 0, zone_offset = 0\<rparr> = ''10''"
  by (simp add: Format_01_def month_end_ext_def Month_def wall_def civil_month_end
        appendInt_def digits_small digits_large digit_char_def)

lemma month_end_month_year:
  "Format_January_2006 (now_again month_end_ext) = ''November 2023''"
  by (simp add: Format_January_2006_def longMonthNames_def month_end_ext_def Month_def
        Year_def wall_def civil_month_end appendInt_def digits_small digits_large
        digit_char_def)

lemma sample_figures:
  "fmt_2f (Finite 100) = ''100.00''" "fmt_2f (Finite 40) = ''40.00''"
  "fmt_2f (Finite 60) = ''60.00''" "fmt_2f (Finite 0) = ''0.00''"
  by (simp_all add: fmt_2f_def round_half_even_def Let_def digits_small digits_large
        digit_char_def)

lemma sample_sums:
  "round64 100 = Finite 100" "round64 40 = Finite 40"
  "f_sub (Finite 100) (Finite 40) = Finite 60" "f_sub (Finite 0) (Finite 0) = Finite 0"
  by (simp_all add: f_sub_def round64_eval)

lemma sample_month_totals:
  "month_total sample_env (sample_table @ [november_row]) ''10'' ''income'' = Finite 100"
  "month_total sample_env (sample_table @ [november_row]) ''10'' ''expense'' = Finite 40"
  "month_total sample_env [november_row] ''10'' ''income'' = Finite 0"
  "month_total sample_env [november_row] ''10'' ''expense'' = Finite 0"
  by (simp_all add: month_total_def sample_table_def november_row_def sample_env_def
        sample_sums)

text \<open>
  At 20:00 UTC on 31 October, read seven hours east where it is already 1 November: the
  rows of October are summed, the row written as 1 November is not, and the text names
  November.
\<close>

theorem monthly_summary_witness:
  "\<not> query_err month_end_ext \<and> rows_err month_end_ext = None
   \<and> outbox (showSummary sample_env month_end_ext 77
               (start_world\<lparr>db := sample_table @ [november_row]\<rparr>)) =
       [SendMessage 77
          (''Monthly Summary Report for November 2023:'' @ [newline, newline]
           @ ''Total Income: 100.00'' @ [newline]
           @ ''Total Expense: 40.00'' @ [newline, newline]
           @ ''Balance: 60.00'')]
   \<and> outbox (showSummary sample_env month_end_ext 77 (start_world\<lparr>db := [november_row]\<rparr>)) =
       [SendMessage 77
          (''Monthly Summary Report for November 2023:'' @ [newline, newline]
           @ ''Total Income: 0.00'' @ [newline]
           @ ''Total Expense: 0.00'' @ [newline, newline]
           @ ''Balance: 0.00'')]"
proof -
  have q: "\<not> query_err month_end_ext" and r: "rows_err month_end_ext = None"
    by (simp_all add: month_end_ext_def)
  from monthly_summary [OF q r, of sample_env 77
      "start_world\<lparr>db := sample_table @ [november_row]\<rparr>"]
  have 1: "outbox (showSummary sample_env month_end_ext 77
               (start_world\<lparr>db := sample_table @ [november_row]\<rparr>)) =
       [SendMessage 77
          (''Monthly Summary Report for November 2023:'' @ [newline, newline]
           @ ''Total Income: 100.00'' @ [newline]
           @ ''Total Expense: 40.00'' @ [newline, newline]
           @ ''Balance: 60.00'')]"
    by (simp add: month_end_month month_end_month_year sample_month_totals sample_sums
          sample_figures sendMessage_def start_world_def)
  from monthly_summary [OF q r, of sample_env 77 "start_world\<lparr>db := [november_row]\<rparr>"]
  have 2: "outbox (showSummary sample_env month_end_ext 77 (start_world\<lparr>db := [november_row]\<rparr>)) =
       [SendMessage 77
          (''Monthly Summary Report for November 2023:'' @ [newline, newline]
           @ ''Total Income: 0.00'' @ [newline]
           @ ''Total Expense: 0.00'' @ [newline, newline]
           @ ''Balance: 0.00'')]"
    by (simp add: month_end_month month_end_month_year sample_month_totals sample_sums
          sample_figures sendMessage_def start_world_def)
  from q r 1 2 show ?thesis by simp
qed

lemma month_total_other_type:
  "tx_type r \<noteq> ty \<Longrightarrow> month_total e (t1 @ r # t2) month ty = month_total e (t1 @ t2) month ty"
  by (simp add: month_total_def)

lemma scan_rows_counted: "scan_rows rows totals = scan_rows (filter counted_row rows) totals"
proof (induction rows totals rule: scan_rows.induct)
  case (1 totals)
  then show ?case by simp
next
  case (2 rows totals)
  then show ?case by (simp add: counted_row_def)
next
  case (3 transactionType total' rows incomeTotal expenseTotal)
  then show ?case by (simp add: counted_row_def)
qed

lemma filter_take_prefix: "\<exists>j. filter P (take n xs) = take j (filter P xs)"
proof (induction xs arbitrary: n)
  case Nil
  then show ?case by simp
next
  case (Cons a xs)
  show ?case
  proof (cases n)
    case 0
    then show ?thesis by (intro exI [of _ 0]) simp
  next
    case (Suc n')
    from Cons.IH [of n'] obtain j where j: "filter P (take n' xs) = take j (filter P xs)" ..
    show ?thesis
    proof (cases "P a")
      case True
      with Suc j show ?thesis by (intro exI [of _ "Suc j"]) simp
    next
      case False
      with Suc j show ?thesis by (intro exI [of _ j]) simp
    qed
  qed
qed

lemma take_filter_cut: "\<exists>k. take j (filter P xs) = filter P (take k xs)"
proof (induction xs arbitrary: j)
  case Nil
  then show ?case by simp
next
  case (Cons a xs)
  show ?case
  proof (cases "P a")
    case False
    from Cons.IH [of j] obtain k where "take j (filter P xs) = filter P (take k xs)" ..
    with False show ?thesis by (intro exI [of _ "Suc k"]) simp
  next
    case True
    show ?thesis
    proof (cases j)
      case 0
      then show ?thesis by (intro exI [of _ 0]) simp
    next
      case (Suc j')
      from Cons.IH [of j'] obtain k where "take j' (filter P xs) = filter P (take k xs)" ..
      with True Suc show ?thesis by (intro exI [of _ "Suc k"]) simp
    qed
  qed
qed

lemma delivered_counted_cut:
  assumes "filter P xs = filter P ys"
  shows "\<exists>stop. filter P (delivered s xs) = filter P (delivered stop ys)"
proof (cases s)
  case None
  with assms show ?thesis by (intro exI [of _ None]) (simp add: delivered_def)
next
  case (Some n)
  from filter_take_prefix [of P n xs] obtain j where "filter P (take n xs) = take j (filter P xs)" ..
  moreover from take_filter_cut [of j P ys] obtain k where "take j (filter P ys) = filter P (take k ys)" ..
  ultimately have "filter P (take n xs) = filter P (take k ys)"
    using assms by simp
  with Some show ?thesis by (intro exI [of _ "Some k"]) (simp add: delivered_def)
qed

lemma counted_rows_other_type:
  assumes "tx_type r \<noteq> ''income''" and "tx_type r \<noteq> ''expense''"
  shows "filter counted_row (map Some (query_totals e (t1 @ r # t2) month))
         = filter counted_row (map Some (query_totals e (t1 @ t2) month))"
proof -
  let ?C = "\<lambda>t. t = ''income'' \<or> t = ''expense''"
  let ?sel = "\<lambda>T. filter (\<lambda>r. sqlite_strftime_m e (tx_created_at r) = Some month) T"
  let ?g = "\<lambda>T t. sqlite_SUM e (map tx_amount (filter (\<lambda>r. tx_type r = t) (?sel T)))"
  have c: "filter counted_row (map Some (query_totals e T month))
           = map (\<lambda>t. Some (t, ?g T t)) (filter ?C (remdups (map tx_type (?sel T))))" for T
    by (simp add: query_totals_def Let_def filter_map comp_def counted_row_def)
  have ts: "filter ?C (remdups (map tx_type (?sel (t1 @ r # t2))))
            = filter ?C (remdups (map tx_type (?sel (t1 @ t2))))"
    using assms by (simp add: remdups_filter [symmetric])
  have g: "?C t \<Longrightarrow> ?g (t1 @ r # t2) t = ?g (t1 @ t2) t" for t
    using assms by auto
  show ?thesis
    unfolding c ts using g by (intro map_cong) auto
qed

lemma other_type_message_cut:
  assumes "tx_type r \<noteq> ''income''" and "tx_type r \<noteq> ''expense''"
  shows "\<exists>stop. outbox (showSummary e x chatID (w\<lparr>db := t1 @ r # t2\<rparr>))
               = outbox (showSummary e (x\<lparr>rows_err := stop\<rparr>) chatID (w\<lparr>db := t1 @ t2\<rparr>))"
proof -
  let ?m = "Format_01 (UTC (now x))"
  from delivered_counted_cut [OF counted_rows_other_type [OF assms, of e t1 t2 ?m], of "rows_err x"]
  obtain stop where
    "filter counted_row (delivered (rows_err x) (map Some (query_totals e (t1 @ r # t2) ?m)))
     = filter counted_row (delivered stop (map Some (query_totals e (t1 @ t2) ?m)))" ..
  then have "scan_rows (delivered (rows_err x) (map Some (query_totals e (t1 @ r # t2) ?m)))
               (Finite 0, Finite 0)
             = scan_rows (delivered stop (map Some (query_totals e (t1 @ t2) ?m)))
               (Finite 0, Finite 0)"
    using scan_rows_counted by metis
  then show ?thesis
    by (intro exI [of _ stop]) (simp add: showSummary_def Let_def sendMessage_def)
qed

text \<open>
  Claim C10. Whatever the table holds, a row whose type is neither \<open>income\<close> nor
  \<open>expense\<close>, letter for letter, changes nothing in the summary: the two totals the loop
  ends with over the result of the query, and so the balance and the message sent when
  the iteration delivers every row, are those of the table without the row; and when the
  iteration stops early, the message is still one that the table without the row yields,
  with the iteration stopped at a suitable row. In the loop an aggregated row of another
  type leaves both totals as they are, so the totals after any rows the iteration
  delivers are those after the rows of type \<open>income\<close> and \<open>expense\<close> among them; and
  over an empty table both totals are the 0.0 they start from.
\<close>

theorem other_types_ignored:
  assumes "tx_type r \<noteq> ''income''" and "tx_type r \<noteq> ''expense''"
  shows "scan_rows (map Some (query_totals e (t1 @ r # t2) month)) (Finite 0, Finite 0)
           = scan_rows (map Some (query_totals e (t1 @ t2) month)) (Finite 0, Finite 0)
         \<and> (rows_err x = None \<longrightarrow>
              outbox (showSummary e x chatID (w\<lparr>db := t1 @ r # t2\<rparr>))
              = outbox (showSummary e x chatID (w\<lparr>db := t1 @ t2\<rparr>)))
         \<and> (\<exists>stop. outbox (showSummary e x chatID (w\<lparr>db := t1 @ r # t2\<rparr>))
                   = outbox (showSummary e (x\<lparr>rows_err := stop\<rparr>) chatID
                       (w\<lparr>db := t1 @ t2\<rparr>)))
         \<and> scan_rows (Some (tx_type r, v) # rows) totals = scan_rows rows totals
         \<and> scan_rows rows totals = scan_rows (filter counted_row rows) totals
         \<and> scan_rows (map Some (query_totals e [] month)) (Finite 0, Finite 0)
           = (Finite 0, Finite 0)"
proof -
  have 1: "scan_rows (map Some (query_totals e (t1 @ r # t2) m)) (Finite 0, Finite 0)
           = scan_rows (map Some (query_totals e (t1 @ t2) m)) (Finite 0, Finite 0)" for m
    using assms by (simp add: summary_totals month_total_other_type)
  have 2: "scan_rows (Some (tx_type r, v) # rows) totals = scan_rows rows totals"
    using assms by (cases totals) simp
  have 3: "scan_rows (map Some (query_totals e [] month)) (Finite 0, Finite 0)
           = (Finite 0, Finite 0)"
    by (simp add: query_totals_def)
  have 4: "outbox (showSummary e x chatID (w\<lparr>db := t1 @ r # t2\<rparr>))
           = outbox (showSummary e x chatID (w\<lparr>db := t1 @ t2\<rparr>))"
    if "rows_err x = None"
    using that by (simp add: showSummary_def Let_def delivered_def 1 sendMessage_def)
  from 1 2 3 4 scan_rows_counted [of rows totals]
    other_type_message_cut [OF assms, where e = e and x = x and chatID = chatID and w = w
      and ?t1.0 = t1 and ?t2.0 = t2]
  show ?thesis by simp
qed

theorem other_types_ignored_witness:
  "tx_type refund_row \<noteq> ''income'' \<and> tx_type refund_row \<noteq> ''expense''
   \<and> rows_err month_end_ext = None
   \<and> sqlite_strftime_m sample_env (tx_created_at refund_row) = Some ''10''
   \<and> scan_rows (map Some (query_totals sample_env (refund_row # sample_table) ''10''))
        (Finite 0, Finite 0)
     = (Finite 100, Finite 40)
   \<and> outbox (showSummary sample_env month_end_ext 77 (start_world\<lparr>db := refund_row # sample_table\<rparr>))
     = outbox (showSummary sample_env month_end_ext 77 (start_world\<lparr>db := sample_table\<rparr>))"
proof -
  have a: "tx_type refund_row \<noteq> ''income''" "tx_type refund_row \<noteq> ''expense''"
    by (simp_all add: refund_row_def)
  have b: "sqlite_strftime_m sample_env (tx_created_at refund_row) = Some ''10''"
    by (simp add: refund_row_def sample_env_def)
  have r: "rows_err month_end_ext = None"
    by (simp add: month_end_ext_def)
  have c: "scan_rows (map Some (query_totals sample_env sample_table ''10'')) (Finite 0, Finite 0)
     = (Finite 100, Finite 40)"
    by (simp add: summary_totals month_total_def sample_table_def sample_env_def sample_sums)
  note th = other_types_ignored [OF a, where e = sample_env and ?t1.0 = "[]"
      and ?t2.0 = sample_table and month = "''10''" and x = month_end_ext and chatID = 77
      and w = start_world]
  from th c
  have 1: "scan_rows (map Some (query_totals sample_env (refund_row # sample_table) ''10''))
        (Finite 0, Finite 0) = (Finite 100, Finite 40)"
    by simp
  from th r
  have 2: "outbox (showSummary sample_env month_end_ext 77
                     (start_world\<lparr>db := refund_row # sample_table\<rparr>))
     = outbox (showSummary sample_env month_end_ext 77 (start_world\<lparr>db := sample_table\<rparr>))"
    by simp
  from a b r 1 2 show ?thesis by simp
qed

section \<open>Selections and the rows they lead to\<close>

lemma sendMessage_frame:
  "userStates (sendMessage c s w) = userStates w" "db (sendMessage c s w) = db w"
  by (simp_all add: sendMessage_def)

lemma showSummary_frame:
  "userStates (showSummary e x c w) = userStates w" "db (showSummary e x c w) = db w"
  by (simp_all add: showSummary_def Let_def sendMessage_def)

lemma report_frame:
  "userStates (get_latest_report x c w) = userStates w" "db (get_latest_report x c w) = db w"
  "userStates (get_weekly_expense_report x c w) = userStates w"
  "db (get_weekly_expense_report x c w) = db w"
  by (simp_all add: get_latest_report_def get_weekly_expense_report_def sendMessage_def
        split: option.splits)

lemmas dialog_eval =
  stale_keyboard_dialog_def handleMessage_def handleCallbackQuery_def startTransaction_def
  processTransactionType_def processCategory_def processAmount_cases processDescription_cases
  sendMessage_def sendMessageWithKeyboard_def editMessage_def editMessageWithKeyboard_def
  add_command_def selection_def text_message_def sample_env_def start_world_def Let_def

lemma sample_no_failure: "\<not> prepare_err sample_ext" "\<not> exec_err sample_ext"
  by (simp_all add: sample_ext_def)

text \<open>
  Claim C2, at a selection made on the keyboard of an earlier message. The claim has a
  payload outside \<open>income\<close> and \<open>expense\<close> never recorded as the type and never stored,
  and the source comments the field \<open>TransactionType\<close> with \<open>"income" or "expense"\<close>.
  \<open>processTransactionType\<close> assigns the payload without a test. After the command, the
  selection of \<open>income\<close> and the command again, the keyboard of the categories that the
  bot sent is still on the screen while the step is \<open>SELECT_TYPE\<close>: its button \<open>Food\<close>
  is recorded as the type, and the dialog ends with a row of type \<open>Food\<close> in the table.
\<close>

theorem stale_keyboard_type_stored:
  "last (outbox (run sample_env (take 2 stale_keyboard_dialog) start_world)) =
     EditMessageWithKeyboard 77 5 ''You selected income. Choose a category:''
       [[(''Food'', ''Food'')], [(''Salary'', ''Salary'')], [(''Needs'', ''Needs'')],
        [(''Water'', ''Water'')], [(''Laundry'', ''Laundry'')],
        [(''Transportation'', ''Transportation'')], [(''Utilities'', ''Utilities'')],
        [(''Rent'', ''Rent'')], [(''Bills'', ''Bills'')]]
   \<and> userStates (run sample_env (take 3 stale_keyboard_dialog) start_world) 1001 =
       Some \<lparr>UserID = 1001, Step = ''SELECT_TYPE'', TransactionType = [], Category = [],
             Amount = Finite 0, Description = []\<rparr>
   \<and> userStates (run sample_env (take 4 stale_keyboard_dialog) start_world) 1001 =
       Some \<lparr>UserID = 1001, Step = ''SELECT_CATEGORY'', TransactionType = ''Food'',
             Category = [], Amount = Finite 0, Description = []\<rparr>
   \<and> db (run sample_env stale_keyboard_dialog start_world) =
       [\<lparr>tx_type = ''Food'', tx_category = ''Salary'', tx_amount = Finite (25 / 2),
         tx_description = ''lunch'', tx_created_at = ''2023-11-15 05:13:20''\<rparr>]
   \<and> ''Food'' \<noteq> ''income'' \<and> ''Food'' \<noteq> ''expense''"
  by (simp add: dialog_eval sample_no_failure sample_created_at)

section \<open>Dialog states are stored under the user they name\<close>

lemma entries_keyed_start: "entries_keyed start_world"
  by (simp add: entries_keyed_def start_world_def)

lemma handleMessage_keyed:
  assumes "entries_keyed w"
  shows "entries_keyed (handleMessage e x m w)"
proof (cases "From_ID m = ALLOWED_USER_ID e")
  case False
  with assms show ?thesis
    by (simp add: handleMessage_def Let_def entries_keyed_def sendMessage_frame)
next
  case True
  have add: "entries_keyed (startTransaction c (ALLOWED_USER_ID e) w)" for c
    using assms
    by (simp add: entries_keyed_def startTransaction_def sendMessageWithKeyboard_def Let_def)
  have frame: "entries_keyed (showSummary e x c w)" "entries_keyed (get_latest_report x c w)"
    "entries_keyed (get_weekly_expense_report x c w)" "entries_keyed (sendMessage c s w)" for c s
    using assms
    by (simp_all add: entries_keyed_def showSummary_frame report_frame sendMessage_frame)
  show ?thesis
  proof (cases "userStates w (ALLOWED_USER_ID e)")
    case None
    with True add frame assms show ?thesis
      by (simp add: handleMessage_def Let_def)
  next
    case (Some st)
    have amount: "entries_keyed (processAmount e m (ALLOWED_USER_ID e) st w)"
      using assms Some
      by (simp add: processAmount_cases entries_keyed_def sendMessage_def split: option.splits)
    have descr: "entries_keyed (processDescription x m (ALLOWED_USER_ID e) st w)"
      using assms Some
      by (simp add: processDescription_cases entries_keyed_def sendMessage_def)
    from True Some add frame amount descr assms show ?thesis
      by (simp add: handleMessage_def Let_def)
  qed
qed

lemma handleCallbackQuery_keyed:
  assumes "entries_keyed w"
  shows "entries_keyed (handleCallbackQuery e callback w)"
  using assms
  by (auto simp add: handleCallbackQuery_def entries_keyed_def processTransactionType_def
        processCategory_def editMessageWithKeyboard_def editMessage_def sendMessage_def Let_def
        split: option.splits if_splits)

lemma handleUpdate_keyed: "entries_keyed w \<Longrightarrow> entries_keyed (handleUpdate e x u w)"
  by (cases u) (simp_all add: handleMessage_keyed handleCallbackQuery_keyed)

text \<open>
  From the start of the process on, the state found under the authorized user names that
  user: the hypothesis \<open>UserID st = ALLOWED_USER_ID e\<close> of the commit holds in every world
  the loop reaches.
\<close>

lemma run_keyed: "entries_keyed w \<Longrightarrow> entries_keyed (run e us w)"
proof (induction us arbitrary: w)
  case Nil
  then show ?case by simp
next
  case (Cons a us)
  then show ?case by (cases a) (simp add: handleUpdate_keyed)
qed

lemma reached_state_keyed:
  "userStates (run e us start_world) uid = Some st \<Longrightarrow> UserID st = uid"
  using run_keyed [OF entries_keyed_start, of e us] by (simp add: entries_keyed_def)

end
